theory Spec2Isabelle
  imports
    Main
    "HOL-Library.Char_ord"
    "HOL-Library.List_Lexorder"
    "HOL-Library.Multiset"
begin

section \<open>The translation catalog\<close>

text \<open>
  \<^verbatim>\<open>main.cpp\<close> includes \<^verbatim>\<open>translation.h\<close>, which is not among the sources. What
  \<^verbatim>\<open>main.cpp\<close> itself uses of it is \<^verbatim>\<open>Translation::getEntries()\<close> (a sequence with
  \<^verbatim>\<open>empty()\<close> and \<^verbatim>\<open>size()\<close>), the field \<^verbatim>\<open>fuzzy\<close> of an entry, and the three
  members \<^verbatim>\<open>terms\<close>, \<^verbatim>\<open>common_events\<close>, \<^verbatim>\<open>battle_events\<close> of
  \<^verbatim>\<open>TranslationLdb\<close>.
\<close>

text \<open>
  Modelled from the spec: the type \<^verbatim>\<open>Entry\<close> of \<^verbatim>\<open>translation.h\<close>, with the five fields of
  section 3 of the specification. The field \<^verbatim>\<open>context\<close> is written \<open>context'\<close>, the plain
  word being reserved. A catalog (\<^verbatim>\<open>Translation\<close>) is its sequence of entries, in order.
\<close>

record Entry =
  context' :: "string list"
  original :: string
  translation :: string
  fuzzy :: bool
  locations :: "string list"

type_synonym Translation = "Entry list"

record TranslationLdb =
  terms :: Translation
  common_events :: Translation
  battle_events :: Translation

section \<open>Merge, as the specification describes it\<close>

text \<open>
  Modelled from the spec: the identity key of an entry, the pair of its context and its
  original text (section 3).
\<close>

definition key :: "Entry \<Rightarrow> string list \<times> string" where
  "key e = (context' e, original e)"

text \<open>
  Modelled from the spec: looking a catalog up by identity key (section 4.3, step 1).
  The catalog is a sequence, so the entry found is the first one that carries the key;
  under the catalog invariant (keys are unique) it is the only one.
\<close>

fun lookup :: "Translation \<Rightarrow> string list \<times> string \<Rightarrow> Entry option" where
  "lookup [] k = None"
| "lookup (x # xs) k = (if key x = k then Some x else lookup xs k)"

text \<open>
  Modelled from the spec: step 1 of \<^verbatim>\<open>Merge\<close> (section 4.3). The entries of \<open>fresh\<close> are
  visited in order; a found match gives its translation and its fuzzy flag to a new entry
  built from the fresh one, which is appended to \<open>merged\<close>; an entry with no match is
  appended as it is.
\<close>

fun merge_fresh :: "Translation \<Rightarrow> Translation \<Rightarrow> Translation \<Rightarrow> Translation" where
  "merge_fresh existing [] merged = merged"
| "merge_fresh existing (e # fresh) merged =
     (case lookup existing (key e) of
        Some m \<Rightarrow>
          merge_fresh existing fresh
            (merged @ [e\<lparr>translation := translation m, fuzzy := fuzzy m\<rparr>])
      | None \<Rightarrow> merge_fresh existing fresh (merged @ [e]))"

text \<open>
  Modelled from the spec: step 2 of \<^verbatim>\<open>Merge\<close> (section 4.3). The entries of \<open>existing\<close>
  are visited in order; one whose key has no counterpart in \<open>fresh\<close> is appended to
  \<open>stale\<close> as it is.
\<close>

fun collect_stale :: "Translation \<Rightarrow> Translation \<Rightarrow> Translation \<Rightarrow> Translation" where
  "collect_stale fresh [] stale = stale"
| "collect_stale fresh (x # existing) stale =
     (case lookup fresh (key x) of
        Some _ \<Rightarrow> collect_stale fresh existing stale
      | None \<Rightarrow> collect_stale fresh existing (stale @ [x]))"

text \<open>
  Modelled from the spec: \<^verbatim>\<open>Merge(fresh, existing)\<close>, giving \<open>(merged, stale)\<close>
  (section 4.3). The file \<^verbatim>\<open>translation.cpp\<close> that implements \<^verbatim>\<open>Translation::Merge\<close> is not
  among the sources.
\<close>

definition Merge :: "Translation \<Rightarrow> Translation \<Rightarrow> Translation \<times> Translation" where
  "Merge fresh existing = (merge_fresh existing fresh [], collect_stale fresh existing [])"

text \<open>One entry of step 1, as a function of the fresh entry.\<close>

definition carry_over :: "Translation \<Rightarrow> Entry \<Rightarrow> Entry" where
  "carry_over existing e =
     (case lookup existing (key e) of
        Some m \<Rightarrow> e\<lparr>translation := translation m, fuzzy := fuzzy m\<rparr>
      | None \<Rightarrow> e)"

section \<open>The command-line driver\<close>

text \<open>
  The rest of the model follows \<^verbatim>\<open>src/lcftrans/src/main.cpp\<close> function by function.
  What that file calls and does not define (\<^verbatim>\<open>translation.h\<close>, \<^verbatim>\<open>utils.h\<close>, the lcf
  library, the argument parser) is a parameter of the model: every theorem about the
  driver holds for whatever these functions compute.
\<close>

subsection \<open>The outside world\<close>

text \<open>
  The regular files by path, the paths that cannot be opened for writing (a directory, a
  file or a directory without permission), the two console streams, and the paths that
  have been opened for writing so far, in order. Paths are the strings the program builds.
\<close>

record world =
  files :: "string \<rightharpoonup> string"
  refuses :: "string set"
  cout :: string
  cerr :: string
  written :: "string list"

definition nl :: string where
  "nl = [CHR 0x0A]"

definition cout_write :: "string \<Rightarrow> world \<Rightarrow> world" where
  "cout_write s w = w\<lparr>cout := cout w @ s\<rparr>"

definition cerr_write :: "string \<Rightarrow> world \<Rightarrow> world" where
  "cerr_write s w = w\<lparr>cerr := cerr w @ s\<rparr>"

text \<open>
  \<^verbatim>\<open>std::ofstream outfile(path)\<close> opens with the default mode, which creates the file or
  empties the one that is there. When the path cannot be opened the stream is left in its
  failed state and nothing changes; the program never tests the stream.
\<close>

datatype ofstream = Stream_open string | Stream_failed

definition ofstream_open :: "string \<Rightarrow> world \<Rightarrow> ofstream \<times> world" where
  "ofstream_open path w =
     (if path \<in> refuses w then (Stream_failed, w)
      else (Stream_open path,
            w\<lparr>files := (files w)(path \<mapsto> []), written := written w @ [path]\<rparr>))"

text \<open>
  What is sent to an open stream is appended to its file; what is sent to a failed stream
  is dropped.
\<close>

definition ostream_write :: "ofstream \<Rightarrow> string \<Rightarrow> world \<Rightarrow> world" where
  "ostream_write stream bytes w =
     (case stream of
        Stream_failed \<Rightarrow> w
      | Stream_open path \<Rightarrow>
          w\<lparr>files := (files w)(path \<mapsto>
               (case files w path of Some sofar \<Rightarrow> sofar @ bytes | None \<Rightarrow> bytes))\<rparr>)"

text \<open>\<^verbatim>\<open>std::to_string\<close> and \<^verbatim>\<open>operator<<\<close> on an unsigned count, and on an \<^verbatim>\<open>int\<close>.\<close>

fun to_string :: "nat \<Rightarrow> string" where
  "to_string n =
     (if n < 10 then [''0123456789'' ! n]
      else to_string (n div 10) @ [''0123456789'' ! (n mod 10)])"

declare to_string.simps [simp del]

definition int_to_string :: "int \<Rightarrow> string" where
  "int_to_string i = (if i < 0 then CHR ''-'' # to_string (nat (- i)) else to_string (nat i))"

subsection \<open>What the driver calls and does not define\<close>

text \<open>
  One field for each function of another file that \<^verbatim>\<open>main.cpp\<close> calls. The readers take
  the files and a path. \<open>Translation_Merge lib t pot\<close> stands for \<^verbatim>\<open>t.Merge(pot)\<close>: the
  catalog \<^verbatim>\<open>t\<close> afterwards and the catalog returned. \<open>Translation_Match lib dst src\<close>
  stands for \<^verbatim>\<open>dst.Match(src, matched)\<close>: the catalog \<^verbatim>\<open>dst\<close> afterwards, \<^verbatim>\<open>matched\<close>,
  and the catalog returned. \<open>Translation_write lib t\<close> is the text that \<^verbatim>\<open>t.write(out)\<close>
  sends to the stream. \<open>cli_help\<close> is what \<^verbatim>\<open>std::cerr << cli\<close> prints.
\<close>

record 'db lib =
  Utils_LowerCase :: "string \<Rightarrow> string"
  Utils_HasExt :: "string \<Rightarrow> string \<Rightarrow> bool"
  Utils_GetFilename :: "string \<Rightarrow> string"
  Translation_fromLDB :: "(string \<rightharpoonup> string) \<Rightarrow> string \<Rightarrow> string \<Rightarrow> TranslationLdb"
  Translation_fromLMU :: "(string \<rightharpoonup> string) \<Rightarrow> string \<Rightarrow> string \<Rightarrow> Translation"
  Translation_fromLMT :: "(string \<rightharpoonup> string) \<Rightarrow> string \<Rightarrow> string \<Rightarrow> Translation"
  Translation_fromPO :: "(string \<rightharpoonup> string) \<Rightarrow> string \<Rightarrow> Translation"
  Translation_Merge :: "Translation \<Rightarrow> Translation \<Rightarrow> Translation \<times> Translation"
  Translation_Match :: "Translation \<Rightarrow> Translation \<Rightarrow> Translation \<times> int \<times> Translation"
  Translation_write :: "Translation \<Rightarrow> string"
  ReaderUtil_GetEncoding :: "(string \<rightharpoonup> string) \<Rightarrow> string \<Rightarrow> string"
  LDB_Reader_Load :: "(string \<rightharpoonup> string) \<Rightarrow> string \<Rightarrow> string \<Rightarrow> 'db option"
  ReaderUtil_DetectEncoding :: "'db \<Rightarrow> string"
  Encoder_IsOk :: "string \<Rightarrow> bool"
  cli_help :: string

subsection \<open>The configuration (lines 24 to 40)\<close>

definition DATABASE_FILE :: string where
  "DATABASE_FILE = ''rpg_rt.ldb''"

definition MAPTREE_FILE :: string where
  "MAPTREE_FILE = ''rpg_rt.lmt''"

definition INI_FILE :: string where
  "INI_FILE = ''rpg_rt.ini''"

record globals =
  encoding :: string
  outdir :: string
  merge_indir :: string
  indir :: string
  source_files :: "(string \<times> string) list"
  outdir_files :: "(string \<times> string) list"
  ini_file :: string
  database_file :: string
  create :: bool
  update :: bool
  match :: bool

subsection \<open>Writing a catalog\<close>

text \<open>
  The two statements \<^verbatim>\<open>std::ofstream outfile(path); t.write(outfile);\<close> (lines 227 and 228,
  233 and 234, 269 and 270, 275 to 277, 333 and 334, 336 and 337): the file is opened, and
  so emptied, before \<^verbatim>\<open>write\<close> is called to produce the text.
\<close>

definition write_to :: "'db lib \<Rightarrow> Translation \<Rightarrow> string \<Rightarrow> world \<Rightarrow> world" where
  "write_to lib t path w =
     (let (outfile, w1) = ofstream_open path w
      in ostream_write outfile (Translation_write lib t) w1)"

text \<open>
  The same two statements when the run is cut short after \<open>k\<close> bytes of the text have
  reached the file (the disk fills up, the process is killed): the file has been opened, if
  it can be, and the first \<open>k\<close> bytes have been written.
\<close>

definition write_to_cut :: "nat \<Rightarrow> 'db lib \<Rightarrow> Translation \<Rightarrow> string \<Rightarrow> world \<Rightarrow> world" where
  "write_to_cut k lib t path w =
     (let (outfile, w1) = ofstream_open path w
      in ostream_write outfile (take k (Translation_write lib t)) w1)"

text \<open>The paths opened for writing on the way from \<open>w\<close> to \<open>w'\<close>, in order.\<close>

definition newly_written :: "world \<Rightarrow> world \<Rightarrow> string list" where
  "newly_written w w' = drop (length (written w)) (written w')"

subsection \<open>\<^verbatim>\<open>get_outdir_file\<close> (lines 204 to 211)\<close>

fun first_with_lname :: "(string \<times> string) list \<Rightarrow> string \<Rightarrow> string" where
  "first_with_lname [] file = []"
| "first_with_lname (f # fs) file = (if snd f = file then fst f else first_with_lname fs file)"

definition get_outdir_file :: "globals \<Rightarrow> string \<Rightarrow> string" where
  "get_outdir_file g file = first_with_lname (outdir_files g) file"

subsection \<open>\<^verbatim>\<open>DumpLdb\<close> (lines 213 to 249) and \<^verbatim>\<open>DumpLmuLmtInner\<close> (lines 251 to 278)\<close>

text \<open>
  The block \<^verbatim>\<open>if (update) { ... }\<close> stands twice in the file, at lines 217 to 231 and at
  lines 261 to 273, the same but for the name of the catalog. It gives the catalog
  afterwards and the world afterwards.
\<close>

definition update_from_po ::
  "'db lib \<Rightarrow> globals \<Rightarrow> Translation \<Rightarrow> string \<Rightarrow> world \<Rightarrow> Translation \<times> world" where
  "update_from_po lib g t poname w =
     (if update g then
        (let po = get_outdir_file g (Utils_LowerCase lib (poname @ ''.po'')) in
         if po \<noteq> [] then
           (let pot = Translation_fromPO lib (files w) (outdir g @ ''/'' @ po);
                (t', stale) = Translation_Merge lib t pot
            in if stale \<noteq> [] then
                 (let term_s = (if length stale = 1 then '' term is '' else '' terms are '');
                      w1 = cout_write ('' '' @ to_string (length stale) @ term_s @ ''stale'' @ nl) w
                  in (t', write_to lib stale (outdir g @ ''/'' @ poname @ ''.stale.po'') w1))
               else (t', w))
         else (t, w))
      else (t, w))"

text \<open>The lambda \<^verbatim>\<open>dump\<close> of \<^verbatim>\<open>DumpLdb\<close> (lines 216 to 235).\<close>

definition dump :: "'db lib \<Rightarrow> globals \<Rightarrow> Translation \<Rightarrow> string \<Rightarrow> world \<Rightarrow> world" where
  "dump lib g ti poname w =
     (let (ti', w1) = update_from_po lib g ti poname w
      in write_to lib ti' (outdir g @ ''/'' @ poname @ ''.po'') w1)"

text \<open>The lambda \<^verbatim>\<open>term\<close> of \<^verbatim>\<open>DumpLdb\<close> (lines 237 to 239).\<close>

definition term_count :: "Translation \<Rightarrow> string" where
  "term_count t = to_string (length t) @ '' '' @ (if length t = 1 then ''term '' else ''terms '')"

definition DumpLdb :: "'db lib \<Rightarrow> globals \<Rightarrow> string \<Rightarrow> world \<Rightarrow> world" where
  "DumpLdb lib g filename w =
     (let t = Translation_fromLDB lib (files w) filename (encoding g);
          w1 = cout_write ('' '' @ term_count (terms t) @ ''in the database'' @ nl) w;
          w2 = dump lib g (terms t) ''RPG_RT.ldb'' w1;
          w3 = cout_write ('' '' @ term_count (common_events t) @ ''in Common Events'' @ nl) w2;
          w4 = dump lib g (common_events t) ''RPG_RT.ldb.common'' w3;
          w5 = cout_write ('' '' @ term_count (battle_events t) @ ''in Battle Events'' @ nl) w4
      in dump lib g (battle_events t) ''RPG_RT.ldb.battle'' w5)"

definition DumpLmuLmtInner ::
  "'db lib \<Rightarrow> globals \<Rightarrow> string \<Rightarrow> Translation \<Rightarrow> string \<Rightarrow> world \<Rightarrow> world" where
  "DumpLmuLmtInner lib g filename t poname w =
     (if t = [] then cout_write ('' Skipped. No terms found.'' @ nl) w
      else
        (let w1 = cout_write ('' '' @ to_string (length t) @ '' term''
                    @ (if length t = 1 then [] else ''s'') @ nl) w;
             (t', w2) = update_from_po lib g t poname w1
         in write_to lib t' (outdir g @ ''/'' @ poname @ ''.po'') w2))"

definition DumpLmu :: "'db lib \<Rightarrow> globals \<Rightarrow> string \<Rightarrow> world \<Rightarrow> world" where
  "DumpLmu lib g filename w =
     (let t = Translation_fromLMU lib (files w) filename (encoding g)
      in DumpLmuLmtInner lib g filename t (Utils_GetFilename lib filename) w)"

definition DumpLmt :: "'db lib \<Rightarrow> globals \<Rightarrow> string \<Rightarrow> world \<Rightarrow> world" where
  "DumpLmt lib g filename w =
     (let t = Translation_fromLMT lib (files w) filename (encoding g)
      in DumpLmuLmtInner lib g filename t ''RPG_RT.lmt'' w)"

subsection \<open>Sorting the source files (lines 181 to 183 and 291 to 293)\<close>

text \<open>
  \<^verbatim>\<open>std::sort\<close> with the comparison \<^verbatim>\<open>a.first < b.first\<close>, which on \<^verbatim>\<open>std::string\<close> is the
  lexicographic order of the bytes, read as unsigned: the order of \<^typ>\<open>string\<close> here.
  \<^verbatim>\<open>std::sort\<close> fixes the result up to the order of elements with equal names; the
  driver only ever stores pairs of a name and its lower-cased form, for which there is one
  sorted arrangement (lemma \<open>std_sort_unique\<close> below), so insertion sort gives it.
\<close>

definition std_sort :: "(string \<times> string) list \<Rightarrow> (string \<times> string) list" where
  "std_sort fs = sort_key fst fs"

definition sort_source_files :: "globals \<Rightarrow> globals" where
  "sort_source_files g = g\<lparr>source_files := std_sort (source_files g)\<rparr>"

subsection \<open>\<^verbatim>\<open>MatchMode\<close> (lines 290 to 344)\<close>

text \<open>
  How a run ends: \<^verbatim>\<open>main\<close> returns, \<^verbatim>\<open>std::exit\<close> is called, or an exception that nothing
  catches ends the process. \<^verbatim>\<open>EXIT_FAILURE\<close> is the macro of \<^verbatim>\<open><cstdlib>\<close>, 1 on the
  platforms the program is built for.
\<close>

datatype outcome = Returned int | Exited int | Terminated

definition EXIT_FAILURE :: int where
  "EXIT_FAILURE = 1"

text \<open>
  The lambda \<^verbatim>\<open>ends_with_po\<close> (lines 295 to 303). The position given to \<^verbatim>\<open>compare\<close> is
  \<^verbatim>\<open>src_l.length() - po.length()\<close>, an unsigned difference: were the lower-cased string
  shorter than three bytes it would wrap around past the end of the string and \<^verbatim>\<open>compare\<close>
  would throw \<^verbatim>\<open>std::out_of_range\<close> (\<open>None\<close>).
\<close>

definition ends_with_po :: "'db lib \<Rightarrow> string \<Rightarrow> bool option" where
  "ends_with_po lib src =
     (if length src \<ge> 3 then
        (let src_l = Utils_LowerCase lib src in
         if length src_l < 3 then None
         else Some (take 3 (drop (length src_l - 3) src_l) = ''.po''))
      else Some False)"

text \<open>
  \<^verbatim>\<open>o.first.substr(0, o.first.size() - 3)\<close> (line 333): on a name shorter than three bytes
  the unsigned count wraps around to a huge one and \<^verbatim>\<open>substr\<close> gives the whole name.
\<close>

definition without_last3 :: "string \<Rightarrow> string" where
  "without_last3 name = (if length name < 3 then name else take (length name - 3) name)"

text \<open>The body of the inner loop for a pair with equal lower-cased names (lines 312 to 338).\<close>

definition match_pair ::
  "'db lib \<Rightarrow> globals \<Rightarrow> string \<times> string \<Rightarrow> string \<times> string \<Rightarrow> world \<Rightarrow> world" where
  "match_pair lib g s d w =
     (let src_po = Translation_fromPO lib (files w) (merge_indir g @ ''/'' @ fst s);
          dst_po = Translation_fromPO lib (files w) (indir g @ ''/'' @ fst d);
          (dst_po', matched, stale) = Translation_Match lib dst_po src_po;
          w1 = cout_write (''Matching '' @ fst d @ nl) w;
          w2 = cout_write ('' '' @ int_to_string matched @ '' term''
                 @ (if matched \<noteq> 1 then ''s'' else []) @ '' matched'' @ nl) w1;
          n_fuzzy = length (filter fuzzy dst_po');
          w3 = (if n_fuzzy > 0 then
                  cout_write ('' '' @ to_string n_fuzzy
                    @ (if n_fuzzy = 1 then '' term is '' else '' terms are '')
                    @ ''fuzzy matched'' @ nl) w2
                else w2);
          w4 = (if stale \<noteq> [] then
                  write_to lib stale
                    (outdir g @ ''/'' @ without_last3 (fst d) @ ''.unmatched.po'')
                    (cout_write ('' '' @ to_string (length stale)
                       @ (if length stale = 1 then '' term is '' else '' terms are '')
                       @ ''unmatched'' @ nl) w3)
                else w3)
      in write_to lib dst_po' (outdir g @ ''/'' @ fst d) w4)"

text \<open>The inner loop over \<^verbatim>\<open>outdir_files\<close> (lines 310 to 340).\<close>

fun match_inner ::
  "'db lib \<Rightarrow> globals \<Rightarrow> string \<times> string \<Rightarrow> (string \<times> string) list \<Rightarrow> world \<Rightarrow> world" where
  "match_inner lib g s [] w = w"
| "match_inner lib g s (d # ds) w =
     match_inner lib g s ds (if snd s = snd d then match_pair lib g s d w else w)"

text \<open>The outer loop over \<^verbatim>\<open>source_files\<close> (lines 305 to 341), and the \<^verbatim>\<open>return 0\<close>.\<close>

fun match_outer ::
  "'db lib \<Rightarrow> globals \<Rightarrow> (string \<times> string) list \<Rightarrow> world \<Rightarrow> outcome \<times> world" where
  "match_outer lib g [] w = (Returned 0, w)"
| "match_outer lib g (s # ss) w =
     (case ends_with_po lib (fst s) of
        None \<Rightarrow> (Terminated, w)
      | Some False \<Rightarrow> match_outer lib g ss w
      | Some True \<Rightarrow> match_outer lib g ss (match_inner lib g s (outdir_files g) w))"

definition MatchMode :: "'db lib \<Rightarrow> globals \<Rightarrow> world \<Rightarrow> outcome \<times> world" where
  "MatchMode lib g w =
     (let g1 = sort_source_files g in match_outer lib g1 (source_files g1) w)"

subsection \<open>\<^verbatim>\<open>main\<close>, from line 93 on\<close>

text \<open>
  The model starts where the arguments have been parsed into the configuration (lines 42
  to 91 are the argument parser's). The directories are an input: the names
  \<^verbatim>\<open>readdir\<close> returns for each directory that \<^verbatim>\<open>opendir\<close> can open, in the order it
  returns them. Every directory is read before anything is written.
\<close>

definition full_path :: "globals \<Rightarrow> string \<Rightarrow> string" where
  "full_path g name = indir g @ ''/'' @ name"

text \<open>The loops \<^verbatim>\<open>emplace_back(d_name, LowerCase(d_name))\<close> of lines 112, 123 and 132.\<close>

definition dir_entries :: "'db lib \<Rightarrow> string list \<Rightarrow> (string \<times> string) list" where
  "dir_entries lib names = map (\<lambda>d_name. (d_name, Utils_LowerCase lib d_name)) names"

text \<open>Lines 103 to 137: an early return, or the configuration with the directories read.\<close>

definition read_dirs ::
  "'db lib \<Rightarrow> (string \<rightharpoonup> string list) \<Rightarrow> globals \<Rightarrow> world \<Rightarrow> (outcome \<times> world) + globals" where
  "read_dirs lib dirs g w =
     (case dirs (outdir g) of
        None \<Rightarrow>
          Inl (Returned 1, cerr_write (''Cannot access output directory '' @ outdir g @ nl) w)
      | Some out_names \<Rightarrow>
          if update g then
            Inr (g\<lparr>outdir_files := outdir_files g @ dir_entries lib out_names\<rparr>)
          else if match g then
            (case dirs (indir g) of
               None \<Rightarrow>
                 Inl (Returned 1,
                   cerr_write (''Cannot access input directory '' @ indir g @ nl) w)
             | Some in_names \<Rightarrow>
                 (case dirs (merge_indir g) of
                    None \<Rightarrow>
                      Inl (Returned 1,
                        cerr_write (''Cannot access merge input directory ''
                          @ merge_indir g @ nl) w)
                  | Some m_names \<Rightarrow>
                      Inr (g\<lparr>outdir_files := outdir_files g @ dir_entries lib in_names,
                             source_files := source_files g @ dir_entries lib m_names\<rparr>)))
          else Inr g)"

text \<open>The loop of lines 145 to 154 over the names of the game directory.\<close>

fun scan_indir :: "'db lib \<Rightarrow> string list \<Rightarrow> globals \<Rightarrow> globals" where
  "scan_indir lib [] g = g"
| "scan_indir lib (d_name # rest) g =
     (let lname = Utils_LowerCase lib d_name;
          g1 = g\<lparr>source_files := source_files g @ [(d_name, lname)]\<rparr>;
          g2 = (if lname = INI_FILE then g1\<lparr>ini_file := full_path g1 d_name\<rparr>
                else if lname = DATABASE_FILE then g1\<lparr>database_file := full_path g1 d_name\<rparr>
                else g1)
      in scan_indir lib rest g2)"

text \<open>Lines 161 to 171.\<close>

definition detect_encoding :: "'db lib \<Rightarrow> (string \<rightharpoonup> string) \<Rightarrow> globals \<Rightarrow> globals" where
  "detect_encoding lib fs g =
     (if encoding g = [] then
        (let g1 = (if ini_file g \<noteq> [] then
                     g\<lparr>encoding := ReaderUtil_GetEncoding lib fs (ini_file g)\<rparr>
                   else g)
         in if encoding g1 = [] \<and> database_file g1 \<noteq> [] then
              (case LDB_Reader_Load lib fs (database_file g1) (encoding g1) of
                 Some db \<Rightarrow> g1\<lparr>encoding := ReaderUtil_DetectEncoding lib db\<rparr>
               | None \<Rightarrow> g1)
            else g1)
      else g)"

text \<open>The body of the loop of lines 185 to 199, and the loop.\<close>

definition process_file :: "'db lib \<Rightarrow> globals \<Rightarrow> string \<times> string \<Rightarrow> world \<Rightarrow> world" where
  "process_file lib g s w =
     (let name = fst s; lname = snd s in
      if lname = DATABASE_FILE then
        DumpLdb lib g (full_path g name) (cout_write (''Parsing Database '' @ name @ nl) w)
      else if lname = MAPTREE_FILE then
        DumpLmt lib g (full_path g name) (cout_write (''Parsing Maptree '' @ name @ nl) w)
      else if Utils_HasExt lib lname ''.lmu'' then
        DumpLmu lib g (full_path g name) (cout_write (''Parsing Map '' @ name @ nl) w)
      else w)"

fun process_files :: "'db lib \<Rightarrow> globals \<Rightarrow> (string \<times> string) list \<Rightarrow> world \<Rightarrow> world" where
  "process_files lib g [] w = w"
| "process_files lib g (s # ss) w = process_files lib g ss (process_file lib g s w)"

text \<open>
  Lines 143 to 201 of \<^verbatim>\<open>main\<close>: the create and the update workflow, once the output
  directory has been read.
\<close>

definition main_extract ::
  "'db lib \<Rightarrow> (string \<rightharpoonup> string list) \<Rightarrow> globals \<Rightarrow> world \<Rightarrow> outcome \<times> world" where
  "main_extract lib dirs g w =
     (case dirs (indir g) of
        None \<Rightarrow> (Returned 1, cerr_write (''Failed reading dir '' @ indir g @ nl) w)
      | Some names \<Rightarrow>
          (let g2 = detect_encoding lib (files w) (scan_indir lib names g) in
           if \<not> Encoder_IsOk lib (encoding g2) then
             (Returned 3, cerr_write (''Bad encoding '' @ encoding g2 @ nl) w)
           else
             (let w1 = cout_write (''LcfTrans'' @ nl) w;
                  w2 = cout_write (''Using encoding '' @ encoding g2 @ nl) w1;
                  g3 = sort_source_files g2
              in (Returned 0, process_files lib g3 (source_files g3) w2))))"

text \<open>Lines 93 to 141 of \<^verbatim>\<open>main\<close>, and then the rest.\<close>

definition main ::
  "'db lib \<Rightarrow> (string \<rightharpoonup> string list) \<Rightarrow> globals \<Rightarrow> world \<Rightarrow> outcome \<times> world" where
  "main lib dirs g w =
     (if outdir g = merge_indir g then
        (Exited EXIT_FAILURE,
         cerr_write (''You need to specify a different output directory (-o).'' @ nl
           @ cli_help lib) w)
      else
        (case read_dirs lib dirs g w of
           Inl early \<Rightarrow> early
         | Inr g1 \<Rightarrow> if match g1 then MatchMode lib g1 w else main_extract lib dirs g1 w))"

subsection \<open>Notions used to state and to prove the properties of the driver\<close>

text \<open>
  Two listings give a directory the same contents when both fail to open it, or both open
  it and return the same names, each as often, in whatever order.
\<close>

definition same_listing ::
  "(string \<rightharpoonup> string list) \<Rightarrow> (string \<rightharpoonup> string list) \<Rightarrow> string \<Rightarrow> bool" where
  "same_listing dirs dirs' d \<longleftrightarrow>
     (case (dirs d, dirs' d) of
        (None, None) \<Rightarrow> True
      | (Some ns, Some ns') \<Rightarrow> mset ns = mset ns'
      | _ \<Rightarrow> False)"

text \<open>No two names of the directory are the same once lower-cased.\<close>

definition case_distinct :: "'db lib \<Rightarrow> (string \<rightharpoonup> string list) \<Rightarrow> string \<Rightarrow> bool" where
  "case_distinct lib dirs d \<longleftrightarrow>
     (case dirs d of None \<Rightarrow> True | Some ns \<Rightarrow> distinct (map (Utils_LowerCase lib) ns))"

text \<open>
  What an update does for one catalog \<open>t\<close> named \<open>poname\<close>, from the world \<open>w\<close> to the
  world \<open>w'\<close>, in the words of the specification: the earlier catalog is the file of the
  output directory whose lower-cased name is that of \<open>poname.po\<close>; when there is one, the
  catalog is merged with it, and when there is none the catalog stays and nothing is
  stale. The file \<open>poname.stale.po\<close> is opened exactly when the stale catalog is not empty
  (and the path can be opened), and then holds it; the file \<open>poname.po\<close>, another name, is
  opened next (when the path can be opened), and then holds the catalog after the merge.
  Nothing else is opened and no other file changes.
\<close>

definition catalog_updated ::
  "'db lib \<Rightarrow> globals \<Rightarrow> Translation \<Rightarrow> string \<Rightarrow> world \<Rightarrow> world \<Rightarrow> bool" where
  "catalog_updated lib g t poname w w' \<longleftrightarrow>
     (let out = outdir g @ ''/'' @ poname @ ''.po'';
          stale_out = outdir g @ ''/'' @ poname @ ''.stale.po'';
          po = get_outdir_file g (Utils_LowerCase lib (poname @ ''.po''));
          r = (if po = [] then (t, [])
               else Translation_Merge lib t
                      (Translation_fromPO lib (files w) (outdir g @ ''/'' @ po)));
          merged = fst r;
          stale = snd r;
          stale_opened = (stale \<noteq> [] \<and> stale_out \<notin> refuses w);
          out_opened = (out \<notin> refuses w);
          files1 = (if stale_opened then (files w)(stale_out \<mapsto> Translation_write lib stale)
                    else files w)
      in stale_out \<noteq> out \<and>
         refuses w' = refuses w \<and>
         written w' = written w @ (if stale_opened then [stale_out] else [])
                        @ (if out_opened then [out] else []) \<and>
         (stale_out \<in> set (newly_written w w') \<longleftrightarrow> stale_opened) \<and>
         (out \<in> set (newly_written w w') \<longleftrightarrow> out_opened) \<and>
         files w' = (if out_opened then files1(out \<mapsto> Translation_write lib merged)
                     else files1))"

text \<open>Two configurations that the dump functions cannot tell apart.\<close>

definition same_config :: "globals \<Rightarrow> globals \<Rightarrow> bool" where
  "same_config g g' \<longleftrightarrow>
     encoding g = encoding g' \<and> outdir g = outdir g' \<and> merge_indir g = merge_indir g' \<and>
     indir g = indir g' \<and> update g = update g' \<and>
     (\<forall>file. get_outdir_file g file = get_outdir_file g' file)"

text \<open>
  What the loop of lines 145 to 154 leaves in \<^verbatim>\<open>ini_file\<close> and in \<^verbatim>\<open>database_file\<close>: the
  path of the last name whose lower-cased form is the target, or the value before.
\<close>

definition pick_last :: "'db lib \<Rightarrow> string \<Rightarrow> string \<Rightarrow> string list \<Rightarrow> string \<Rightarrow> string" where
  "pick_last lib dir target names dflt =
     (case filter (\<lambda>n. Utils_LowerCase lib n = target) names of
        [] \<Rightarrow> dflt
      | m # ms \<Rightarrow> dir @ ''/'' @ last (m # ms))"

text \<open>What lines 161 to 171 leave in \<^verbatim>\<open>encoding\<close>.\<close>

definition detected ::
  "'db lib \<Rightarrow> (string \<rightharpoonup> string) \<Rightarrow> string \<Rightarrow> string \<Rightarrow> string \<Rightarrow> string" where
  "detected lib fs enc ini db =
     (if enc = [] then
        (let enc1 = (if ini \<noteq> [] then ReaderUtil_GetEncoding lib fs ini else enc)
         in if enc1 = [] \<and> db \<noteq> [] then
              (case LDB_Reader_Load lib fs db enc1 of
                 Some d \<Rightarrow> ReaderUtil_DetectEncoding lib d
               | None \<Rightarrow> enc1)
            else enc1)
      else enc)"

section \<open>Stand-ins and concrete inputs\<close>

text \<open>
  A theorem about the driver is stated for every \<open>lib\<close>. To apply one to a concrete run,
  the functions below stand in for the ones that are not among the sources: ASCII
  lower-casing, a test for a suffix, the name of a file without directory and extension,
  a reader that takes a game file to hold one text per line, and a reader and a writer for
  the plain part of the catalog format of section 6 of the specification (one-line fields,
  no escapes). No theorem is about them.
\<close>

definition dq :: string where
  "dq = [CHR 0x22]"

definition ascii_lower :: "char \<Rightarrow> char" where
  "ascii_lower c =
     (if CHR ''A'' \<le> c \<and> c \<le> CHR ''Z'' then char_of (of_char c + (32::nat)) else c)"

definition has_suffix :: "string \<Rightarrow> string \<Rightarrow> bool" where
  "has_suffix name ext \<longleftrightarrow>
     length ext \<le> length name \<and> drop (length name - length ext) name = ext"

definition file_stem :: "string \<Rightarrow> string" where
  "file_stem path =
     (let base = rev (takeWhile (\<lambda>c. c \<noteq> CHR ''/'') (rev path)) in
      if CHR ''.'' \<in> set base then rev (tl (dropWhile (\<lambda>c. c \<noteq> CHR ''.'') (rev base)))
      else base)"

fun split_on :: "char \<Rightarrow> string \<Rightarrow> string list" where
  "split_on c [] = [[]]"
| "split_on c (x # xs) =
     (if x = c then [] # split_on c xs
      else (case split_on c xs of [] \<Rightarrow> [[x]] | l # ls \<Rightarrow> (x # l) # ls))"

fun join_with :: "char \<Rightarrow> string list \<Rightarrow> string" where
  "join_with c [] = []"
| "join_with c [x] = x"
| "join_with c (x # y # ys) = x @ [c] @ join_with c (y # ys)"

definition plain_entry :: "string \<Rightarrow> Entry" where
  "plain_entry text = \<lparr>context' = [], original = text, translation = [], fuzzy = False,
     locations = []\<rparr>"

definition read_lines_of :: "(string \<rightharpoonup> string) \<Rightarrow> string \<Rightarrow> string \<Rightarrow> Translation" where
  "read_lines_of fs path enc =
     (case fs path of
        None \<Rightarrow> []
      | Some bytes \<Rightarrow> map plain_entry (filter (\<lambda>l. l \<noteq> []) (split_on (CHR 0x0A) bytes)))"

definition write_record :: "Entry \<Rightarrow> string" where
  "write_record e =
     concat (map (\<lambda>l. ''#: '' @ l @ nl) (locations e))
     @ (if fuzzy e then ''#, fuzzy'' @ nl else [])
     @ (if context' e \<noteq> [] then ''msgctxt '' @ dq @ join_with CHR ''.'' (context' e) @ dq @ nl
        else [])
     @ ''msgid '' @ dq @ original e @ dq @ nl
     @ ''msgstr '' @ dq @ translation e @ dq @ nl
     @ nl"

definition write_plain :: "Translation \<Rightarrow> string" where
  "write_plain t = concat (map write_record t)"

fun after_prefix :: "string \<Rightarrow> string \<Rightarrow> string option" where
  "after_prefix [] l = Some l"
| "after_prefix (p # ps) [] = None"
| "after_prefix (p # ps) (c # cs) = (if p = c then after_prefix ps cs else None)"

fun read_records :: "string list \<Rightarrow> Entry \<Rightarrow> bool \<Rightarrow> Translation \<Rightarrow> Translation" where
  "read_records [] cur has_id done = (if has_id then done @ [cur] else done)"
| "read_records (l # ls) cur has_id done =
     (if l = [] then
        read_records ls (plain_entry []) False (if has_id then done @ [cur] else done)
      else
        (case after_prefix ''#: '' l of
           Some r \<Rightarrow> read_records ls (cur\<lparr>locations := locations cur @ [r]\<rparr>) has_id done
         | None \<Rightarrow>
             if l = ''#, fuzzy'' then read_records ls (cur\<lparr>fuzzy := True\<rparr>) has_id done
             else
               (case after_prefix (''msgctxt '' @ dq) l of
                  Some r \<Rightarrow>
                    read_records ls (cur\<lparr>context' := split_on CHR ''.'' (butlast r)\<rparr>)
                      has_id done
                | None \<Rightarrow>
                    (case after_prefix (''msgid '' @ dq) l of
                       Some r \<Rightarrow> read_records ls (cur\<lparr>original := butlast r\<rparr>) True done
                     | None \<Rightarrow>
                         (case after_prefix (''msgstr '' @ dq) l of
                            Some r \<Rightarrow>
                              read_records ls (cur\<lparr>translation := butlast r\<rparr>) has_id done
                          | None \<Rightarrow> read_records ls cur has_id done)))))"

definition read_plain :: "(string \<rightharpoonup> string) \<Rightarrow> string \<Rightarrow> Translation" where
  "read_plain fs path =
     (case fs path of
        None \<Rightarrow> []
      | Some text \<Rightarrow> read_records (split_on (CHR 0x0A) text) (plain_entry []) False [])"

text \<open>
  The stand-ins together. \<^verbatim>\<open>t.Merge(pot)\<close> is \<open>Merge\<close> of the specification; \<^verbatim>\<open>Match\<close>
  here matches nothing and returns the destination as unmatched.
\<close>

definition standin :: "unit lib" where
  "standin = \<lparr>
     Utils_LowerCase = map ascii_lower,
     Utils_HasExt = has_suffix,
     Utils_GetFilename = file_stem,
     Translation_fromLDB = (\<lambda>fs path enc.
       \<lparr>terms = read_lines_of fs path enc, common_events = [], battle_events = []\<rparr>),
     Translation_fromLMU = read_lines_of,
     Translation_fromLMT = read_lines_of,
     Translation_fromPO = read_plain,
     Translation_Merge = Merge,
     Translation_Match = (\<lambda>dst src. (dst, 0, dst)),
     Translation_write = write_plain,
     ReaderUtil_GetEncoding = (\<lambda>fs path. ''1252''),
     LDB_Reader_Load = (\<lambda>fs path enc. None),
     ReaderUtil_DetectEncoding = (\<lambda>db. ''1252''),
     Encoder_IsOk = (\<lambda>enc. enc \<noteq> []),
     cli_help = ''Usage: lcftrans DIRECTORY''
   \<rparr>"

subsection \<open>Catalogs\<close>

definition hello :: Entry where
  "hello = \<lparr>context' = [''event'', ''1''], original = ''Hello'', translation = [],
     fuzzy = False, locations = [''Map0001.lmu'']\<rparr>"

definition bye :: Entry where
  "bye = \<lparr>context' = [''event'', ''2''], original = ''Bye'', translation = [],
     fuzzy = False, locations = [''Map0001.lmu'']\<rparr>"

definition hello_fr :: Entry where
  "hello_fr = \<lparr>context' = [''event'', ''1''], original = ''Hello'',
     translation = ''Bonjour'', fuzzy = True, locations = [''old'']\<rparr>"

definition gone_fr :: Entry where
  "gone_fr = \<lparr>context' = [''event'', ''9''], original = ''Gone'',
     translation = ''Parti'', fuzzy = False, locations = [''old'']\<rparr>"

subsection \<open>A game directory and an output directory\<close>

definition bonjour :: Entry where
  "bonjour = (plain_entry ''Hello'')\<lparr>translation := ''Bonjour''\<rparr>"

definition salut :: Entry where
  "salut = (plain_entry ''Hello'')\<lparr>translation := ''Salut''\<rparr>"

definition parti :: Entry where
  "parti = (plain_entry ''Gone'')\<lparr>translation := ''Parti''\<rparr>"

text \<open>What the stand-in reader finds in the first map below.\<close>

definition hello_bye :: Translation where
  "hello_bye = [plain_entry ''Hello'', plain_entry ''Bye'']"

text \<open>
  A map with the texts \<open>Hello\<close> and \<open>Bye\<close>, a map with no text, an earlier catalog
  for the first map that translates \<open>Hello\<close> and a text that is gone, and an earlier
  catalog for the second map.
\<close>

definition demo_files :: "string \<rightharpoonup> string" where
  "demo_files = map_of
     [(''game/Map0001.lmu'', ''Hello'' @ nl @ ''Bye'' @ nl),
      (''game/Map0002.lmu'', []),
      (''out/Map0001.po'', write_plain [salut, parti]),
      (''out/Map0002.po'', write_plain [parti])]"

definition demo_world :: world where
  "demo_world = \<lparr>files = demo_files, refuses = {}, cout = [], cerr = [], written = []\<rparr>"

text \<open>The same with a second earlier catalog, whose name differs in case only.\<close>

definition demo_world_two :: world where
  "demo_world_two =
     \<lparr>files = demo_files(''out/MAP0001.PO'' \<mapsto> write_plain [bonjour]),
      refuses = {}, cout = [], cerr = [], written = []\<rparr>"

text \<open>The first world with the catalog of the first map write-protected.\<close>

definition demo_world_protected :: world where
  "demo_world_protected = demo_world\<lparr>refuses := {''out/Map0001.po''}\<rparr>"

text \<open>The configuration after \<^verbatim>\<open>lcftrans game -u -o out -e 1252\<close>.\<close>

definition demo_update :: globals where
  "demo_update = \<lparr>encoding = ''1252'', outdir = ''out'', merge_indir = [], indir = ''game'',
     source_files = [], outdir_files = [], ini_file = [], database_file = [],
     create = False, update = True, match = False\<rparr>"

text \<open>The same once the output directory has been read.\<close>

definition demo_update_read :: globals where
  "demo_update_read =
     demo_update\<lparr>outdir_files :=
       dir_entries standin [''.'', ''..'', ''Map0001.po'', ''Map0002.po'']\<rparr>"

text \<open>Directory listings: one, the same in another order, and two for the second world.\<close>

definition demo_dirs :: "string \<rightharpoonup> string list" where
  "demo_dirs = map_of
     [(''game'', [''.'', ''..'', ''Map0001.lmu'', ''Map0002.lmu'']),
      (''out'', [''.'', ''..'', ''Map0001.po'', ''Map0002.po''])]"

definition demo_dirs_shuffled :: "string \<rightharpoonup> string list" where
  "demo_dirs_shuffled = map_of
     [(''game'', [''Map0002.lmu'', ''..'', ''Map0001.lmu'', ''.'']),
      (''out'', [''Map0002.po'', ''Map0001.po'', ''.'', ''..''])]"

definition demo_dirs_two :: "string \<rightharpoonup> string list" where
  "demo_dirs_two = map_of
     [(''game'', [''.'', ''..'', ''Map0001.lmu'', ''Map0002.lmu'']),
      (''out'', [''.'', ''..'', ''MAP0001.PO'', ''Map0001.po'', ''Map0002.po''])]"

definition demo_dirs_two_shuffled :: "string \<rightharpoonup> string list" where
  "demo_dirs_two_shuffled = map_of
     [(''game'', [''.'', ''..'', ''Map0001.lmu'', ''Map0002.lmu'']),
      (''out'', [''.'', ''..'', ''Map0001.po'', ''MAP0001.PO'', ''Map0002.po''])]"

section \<open>Facts about Merge\<close>

subsection \<open>Facts about the lookup and the two loops\<close>

lemma lookup_None_iff: "lookup xs k = None \<longleftrightarrow> k \<notin> key ` set xs"
  by (induction xs) auto

lemma lookup_Some_key: "lookup xs k = Some m \<Longrightarrow> m \<in> set xs \<and> key m = k"
  by (induction xs) (auto split: if_splits)

lemma lookup_unique:
  "distinct (map key xs) \<Longrightarrow> m \<in> set xs \<Longrightarrow> lookup xs (key m) = Some m"
  by (induction xs) (auto simp: rev_image_eqI)

lemma key_carry_over: "key (carry_over existing e) = key e"
  by (simp add: carry_over_def key_def split: option.split)

lemma merge_fresh_map:
  "merge_fresh existing fresh merged = merged @ map (carry_over existing) fresh"
  by (induction fresh arbitrary: merged) (simp_all add: carry_over_def split: option.split)

lemma collect_stale_filter:
  "collect_stale fresh existing stale =
     stale @ filter (\<lambda>x. key x \<notin> key ` set fresh) existing"
proof (induction existing arbitrary: stale)
  case Nil
  show ?case by simp
next
  case (Cons x existing)
  show ?case
  proof (cases "lookup fresh (key x)")
    case None
    then have "key x \<notin> key ` set fresh" by (simp add: lookup_None_iff)
    with None Cons show ?thesis by simp
  next
    case (Some m)
    then have "key x \<in> key ` set fresh"
      using lookup_None_iff [of fresh "key x"] by auto
    with Some Cons show ?thesis by simp
  qed
qed

lemma merged_eq: "fst (Merge fresh existing) = map (carry_over existing) fresh"
  by (simp add: Merge_def merge_fresh_map)

lemma stale_eq:
  "snd (Merge fresh existing) = filter (\<lambda>x. key x \<notin> key ` set fresh) existing"
  by (simp add: Merge_def collect_stale_filter)

lemma merged_keys: "key ` set (fst (Merge fresh existing)) = key ` set fresh"
  by (simp add: merged_eq image_image key_carry_over)

lemma demo_lookups:
  "lookup [hello_fr, gone_fr] (key hello) = Some hello_fr"
  "lookup [hello_fr, gone_fr] (key bye) = None"
  "lookup [hello, bye] (key hello_fr) = Some hello"
  "lookup [hello, bye] (key gone_fr) = None"
  by (simp_all add: key_def hello_def bye_def hello_fr_def gone_fr_def)

lemma demo_Merge:
  "Merge [hello, bye] [hello_fr, gone_fr] =
     ([hello\<lparr>translation := ''Bonjour'', fuzzy := True\<rparr>, bye], [gone_fr])"
proof -
  have "Merge [hello, bye] [hello_fr, gone_fr] =
      ([hello\<lparr>translation := translation hello_fr, fuzzy := fuzzy hello_fr\<rparr>, bye], [gone_fr])"
    by (simp add: Merge_def demo_lookups del: lookup.simps)
  then show ?thesis by (simp add: hello_fr_def)
qed

section \<open>Merge: the claims\<close>

text \<open>
  C1. Every entry \<open>e\<close> of the fresh catalog whose identity key is found in the existing
  catalog has, in the merged catalog, an entry with the context, the original text and the
  locations of \<open>e\<close> and with the translation and the fuzzy flag of the existing entry
  found; an entry whose key is not found is in the merged catalog unchanged.
\<close>

theorem Merge_identity_preservation:
  assumes "e \<in> set fresh"
  shows "case lookup existing (key e) of
           Some m \<Rightarrow>
             (\<exists>me \<in> set (fst (Merge fresh existing)).
                context' me = context' e \<and> original me = original e \<and>
                locations me = locations e \<and>
                translation me = translation m \<and> fuzzy me = fuzzy m)
         | None \<Rightarrow> e \<in> set (fst (Merge fresh existing))"
proof -
  have mem: "carry_over existing e \<in> set (fst (Merge fresh existing))"
    using assms by (simp add: merged_eq)
  show ?thesis
  proof (cases "lookup existing (key e)")
    case None
    with mem show ?thesis by (simp add: carry_over_def)
  next
    case (Some m)
    with mem have "e\<lparr>translation := translation m, fuzzy := fuzzy m\<rparr>
        \<in> set (fst (Merge fresh existing))"
      by (simp add: carry_over_def)
    then have "\<exists>me \<in> set (fst (Merge fresh existing)).
        context' me = context' e \<and> original me = original e \<and>
        locations me = locations e \<and>
        translation me = translation m \<and> fuzzy me = fuzzy m"
      by (rule rev_bexI) simp
    with Some show ?thesis by simp
  qed
qed

theorem Merge_identity_preservation_witness:
  "hello \<in> set [hello, bye] \<and>
   lookup [hello_fr, gone_fr] (key hello) = Some hello_fr \<and>
   (\<exists>me \<in> set (fst (Merge [hello, bye] [hello_fr, gone_fr])).
      context' me = [''event'', ''1''] \<and> original me = ''Hello'' \<and>
      locations me = [''Map0001.lmu''] \<and> translation me = ''Bonjour'' \<and> fuzzy me)"
proof -
  have a: "hello \<in> set [hello, bye]" by simp
  have l: "lookup [hello_fr, gone_fr] (key hello) = Some hello_fr"
    by (rule demo_lookups)
  have f: "context' hello = [''event'', ''1'']" "original hello = ''Hello''"
    "locations hello = [''Map0001.lmu'']" "translation hello_fr = ''Bonjour''"
    "fuzzy hello_fr"
    by (simp_all add: hello_def hello_fr_def)
  from Merge_identity_preservation [OF a, of "[hello_fr, gone_fr]"]
  have "\<exists>me \<in> set (fst (Merge [hello, bye] [hello_fr, gone_fr])).
      context' me = [''event'', ''1''] \<and> original me = ''Hello'' \<and>
      locations me = [''Map0001.lmu''] \<and> translation me = ''Bonjour'' \<and> fuzzy me"
    by (simp add: l f del: lookup.simps)
  with a l show ?thesis by blast
qed

text \<open>
  C2. The merged catalog has exactly as many entries as the fresh one, whatever the
  existing catalog is (the empty one included), and the length of the stale catalog is
  tied to it by nothing: every pair of lengths is reached by some fresh and some existing
  catalog that satisfy the catalog invariant.
\<close>

theorem Merge_completeness:
  "length (fst (Merge fresh existing)) = length fresh \<and>
   length (fst (Merge fresh [])) = length fresh \<and>
   (\<exists>f x. distinct (map key f) \<and> distinct (map key x) \<and>
      length (fst (Merge f x)) = m \<and> length (snd (Merge f x)) = n)"
proof -
  define mk :: "char \<Rightarrow> nat \<Rightarrow> Entry" where
    "mk c i = \<lparr>context' = [], original = replicate (Suc i) c, translation = [],
       fuzzy = False, locations = []\<rparr>" for c i
  define f where "f = map (mk CHR ''a'') [0..<m]"
  define x where "x = map (mk CHR ''b'') [0..<n]"
  have key_mk: "key (mk c i) = ([], replicate (Suc i) c)" for c i
    by (simp add: key_def mk_def)
  have inj: "inj_on (\<lambda>i. key (mk c i)) A" for c A
  proof (rule inj_onI)
    fix i j
    assume "key (mk c i) = key (mk c j)"
    then have "length (replicate (Suc i) c) = length (replicate (Suc j) c)"
      by (simp add: key_mk del: replicate.simps length_replicate)
    then show "i = j" by simp
  qed
  have df: "distinct (map key f)"
    by (simp add: f_def distinct_map comp_def inj)
  have dx: "distinct (map key x)"
    by (simp add: x_def distinct_map comp_def inj)
  have apart: "key e \<notin> key ` set f" if "e \<in> set x" for e
  proof
    assume "key e \<in> key ` set f"
    then obtain j where "key e = key (mk CHR ''a'' j)"
      by (auto simp: f_def)
    moreover from that obtain i where "e = mk CHR ''b'' i"
      by (auto simp: x_def)
    ultimately have "replicate (Suc i) CHR ''b'' = replicate (Suc j) CHR ''a''"
      by (simp add: key_mk del: replicate.simps)
    then have "hd (replicate (Suc i) CHR ''b'') = hd (replicate (Suc j) CHR ''a'')"
      by (rule arg_cong)
    then show False by simp
  qed
  have "filter (\<lambda>e. key e \<notin> key ` set f) x = x"
    by (rule filter_True) (simp add: apart)
  then have "length (snd (Merge f x)) = n"
    by (simp add: stale_eq) (simp add: x_def)
  moreover have "length (fst (Merge f x)) = m"
    by (simp add: merged_eq) (simp add: f_def)
  ultimately have "\<exists>f x. distinct (map key f) \<and> distinct (map key x) \<and>
      length (fst (Merge f x)) = m \<and> length (snd (Merge f x)) = n"
    using df dx by blast
  then show ?thesis by (simp add: merged_eq)
qed

theorem Merge_completeness_witness:
  "length (fst (Merge [hello, bye] [hello_fr, gone_fr])) = 2 \<and>
   length (fst (Merge [hello, bye] [])) = 2 \<and>
   (\<exists>f x. distinct (map key f) \<and> distinct (map key x) \<and>
      length (fst (Merge f x)) = 1 \<and> length (snd (Merge f x)) = 4)"
  using Merge_completeness [of "[hello, bye]" "[hello_fr, gone_fr]" 1 4] by simp

text \<open>
  C3. The stale catalog consists of the entries of the existing catalog whose identity
  key has no counterpart in the fresh catalog, unchanged and in the order of the existing
  catalog; each such entry is in the stale catalog and is not in the merged one.
\<close>

theorem Merge_staleness:
  "snd (Merge fresh existing) = filter (\<lambda>x. key x \<notin> key ` set fresh) existing \<and>
   (\<forall>x \<in> set existing. key x \<notin> key ` set fresh \<longrightarrow>
      x \<in> set (snd (Merge fresh existing)) \<and> x \<notin> set (fst (Merge fresh existing)))"
proof -
  have "x \<notin> set (fst (Merge fresh existing))" if "key x \<notin> key ` set fresh" for x
  proof
    assume "x \<in> set (fst (Merge fresh existing))"
    then have "key x \<in> key ` set (fst (Merge fresh existing))" by (rule imageI)
    with that show False by (simp add: merged_keys)
  qed
  then show ?thesis by (simp add: stale_eq)
qed

theorem Merge_staleness_witness:
  "snd (Merge [hello, bye] [hello_fr, gone_fr]) = [gone_fr] \<and>
   gone_fr \<in> set [hello_fr, gone_fr] \<and> key gone_fr \<notin> key ` set [hello, bye] \<and>
   gone_fr \<in> set (snd (Merge [hello, bye] [hello_fr, gone_fr])) \<and>
   gone_fr \<notin> set (fst (Merge [hello, bye] [hello_fr, gone_fr]))"
proof -
  have k: "key gone_fr \<notin> key ` set [hello, bye]"
    by (simp add: key_def hello_def bye_def gone_fr_def)
  have m: "gone_fr \<in> set [hello_fr, gone_fr]" by simp
  from Merge_staleness [of "[hello, bye]" "[hello_fr, gone_fr]"] k m
  have "gone_fr \<in> set (snd (Merge [hello, bye] [hello_fr, gone_fr])) \<and>
      gone_fr \<notin> set (fst (Merge [hello, bye] [hello_fr, gone_fr]))"
    by blast
  moreover have "snd (Merge [hello, bye] [hello_fr, gone_fr]) = [gone_fr]"
    by (simp add: demo_Merge)
  ultimately show ?thesis using k m by blast
qed

text \<open>
  C7. Merging the merged catalog against the same fresh catalog once more leaves nothing
  stale.
\<close>

theorem Merge_idempotent_stale:
  "snd (Merge fresh (fst (Merge fresh existing))) = []"
proof -
  have "\<forall>x \<in> set (fst (Merge fresh existing)). key x \<in> key ` set fresh"
    using merged_keys [of fresh existing] by blast
  then show ?thesis by (simp add: stale_eq filter_empty_conv)
qed

theorem Merge_idempotent_stale_witness:
  "snd (Merge [hello, bye] (fst (Merge [hello, bye] [hello_fr, gone_fr]))) = [] \<and>
   fst (Merge [hello, bye] [hello_fr, gone_fr]) \<noteq> []"
  using Merge_idempotent_stale [of "[hello, bye]" "[hello_fr, gone_fr]"]
  by (simp add: demo_Merge)

section \<open>Facts about the driver\<close>

subsection \<open>Files and streams\<close>

lemma files_cout_write [simp]: "files (cout_write s w) = files w"
  and written_cout_write [simp]: "written (cout_write s w) = written w"
  and refuses_cout_write [simp]: "refuses (cout_write s w) = refuses w"
  by (simp_all add: cout_write_def)

lemma write_to_cut_eq:
  "write_to_cut k lib t path w =
     (if path \<in> refuses w then w
      else w\<lparr>files := (files w)(path \<mapsto> take k (Translation_write lib t)),
             written := written w @ [path]\<rparr>)"
  by (simp add: write_to_cut_def ostream_write_def ofstream_open_def)

lemma write_to_eq:
  "write_to lib t path w =
     (if path \<in> refuses w then w
      else w\<lparr>files := (files w)(path \<mapsto> Translation_write lib t),
             written := written w @ [path]\<rparr>)"
  by (simp add: write_to_def ostream_write_def ofstream_open_def)

lemma files_write_to [simp]:
  "files (write_to lib t path w) =
     (if path \<in> refuses w then files w else (files w)(path \<mapsto> Translation_write lib t))"
  by (simp add: write_to_eq)

lemma written_write_to [simp]:
  "written (write_to lib t path w) = written w @ (if path \<in> refuses w then [] else [path])"
  by (simp add: write_to_eq)

lemma refuses_write_to [simp]: "refuses (write_to lib t path w) = refuses w"
  by (simp add: write_to_eq)

lemma newly_written_append [simp]: "written w' = written w @ xs \<Longrightarrow> newly_written w w' = xs"
  by (simp add: newly_written_def)

lemma update_from_po_update:
  assumes "update g"
  shows "update_from_po lib g t poname w =
     (let po = get_outdir_file g (Utils_LowerCase lib (poname @ ''.po''));
          r = (if po = [] then (t, [])
               else Translation_Merge lib t
                      (Translation_fromPO lib (files w) (outdir g @ ''/'' @ po)))
      in (fst r,
          if snd r \<noteq> [] then
            write_to lib (snd r) (outdir g @ ''/'' @ poname @ ''.stale.po'')
              (cout_write ('' '' @ to_string (length (snd r))
                 @ (if length (snd r) = 1 then '' term is '' else '' terms are '')
                 @ ''stale'' @ nl) w)
          else w))"
  using assms by (simp add: update_from_po_def Let_def split: prod.split)

subsection \<open>One catalog of an update\<close>

lemma catalog_updated_cong:
  assumes "files v = files w" "refuses v = refuses w" "written v = written w"
  shows "catalog_updated lib g t poname v w' = catalog_updated lib g t poname w w'"
  unfolding catalog_updated_def newly_written_def assms by (rule refl)

lemma catalog_updated_cout [simp]:
  "catalog_updated lib g t poname (cout_write s w) w' = catalog_updated lib g t poname w w'"
  by (rule catalog_updated_cong) simp_all

lemma catalog_updated_cout_after:
  "catalog_updated lib g t poname w w' \<Longrightarrow> catalog_updated lib g t poname w (cout_write s w')"
  by (simp add: catalog_updated_def newly_written_def)

lemma catalog_updated_step:
  assumes "update g"
  shows "catalog_updated lib g t poname w
     (write_to lib (fst (update_from_po lib g t poname w)) (outdir g @ ''/'' @ poname @ ''.po'')
        (snd (update_from_po lib g t poname w)))"
proof -
  define out where "out = outdir g @ ''/'' @ poname @ ''.po''"
  define stale_out where "stale_out = outdir g @ ''/'' @ poname @ ''.stale.po''"
  define po where "po = get_outdir_file g (Utils_LowerCase lib (poname @ ''.po''))"
  define r where "r = (if po = [] then (t, [])
      else Translation_Merge lib t (Translation_fromPO lib (files w) (outdir g @ ''/'' @ po)))"
  define w1 where "w1 = snd (update_from_po lib g t poname w)"
  define w2 where "w2 = write_to lib (fst r) out w1"
  have ne: "stale_out \<noteq> out"
    by (simp add: stale_out_def out_def)
  have u: "fst (update_from_po lib g t poname w) = fst r"
    "written w1 = written w @ (if snd r \<noteq> [] \<and> stale_out \<notin> refuses w then [stale_out] else [])"
    "files w1 = (if snd r \<noteq> [] \<and> stale_out \<notin> refuses w
                 then (files w)(stale_out \<mapsto> Translation_write lib (snd r)) else files w)"
    "refuses w1 = refuses w"
    using assms
    by (simp_all add: w1_def update_from_po_update Let_def r_def po_def stale_out_def)
  have w: "written w2 = written w
        @ (if snd r \<noteq> [] \<and> stale_out \<notin> refuses w then [stale_out] else [])
        @ (if out \<notin> refuses w then [out] else [])"
    by (simp add: w2_def u)
  have f: "files w2 =
      (if out \<notin> refuses w
       then (if snd r \<noteq> [] \<and> stale_out \<notin> refuses w
             then (files w)(stale_out \<mapsto> Translation_write lib (snd r)) else files w)
            (out \<mapsto> Translation_write lib (fst r))
       else (if snd r \<noteq> [] \<and> stale_out \<notin> refuses w
             then (files w)(stale_out \<mapsto> Translation_write lib (snd r)) else files w))"
    by (simp add: w2_def u)
  have n: "newly_written w w2 =
      (if snd r \<noteq> [] \<and> stale_out \<notin> refuses w then [stale_out] else [])
        @ (if out \<notin> refuses w then [out] else [])"
    using w by (rule newly_written_append)
  have m: "stale_out \<in> set (newly_written w w2) \<longleftrightarrow> snd r \<noteq> [] \<and> stale_out \<notin> refuses w"
    "out \<in> set (newly_written w w2) \<longleftrightarrow> out \<notin> refuses w"
    using ne by (auto simp: n)
  have "refuses w2 = refuses w"
    by (simp add: w2_def u)
  with ne w f m have "catalog_updated lib g t poname w w2"
    unfolding catalog_updated_def Let_def out_def [symmetric] stale_out_def [symmetric]
      po_def [symmetric] r_def [symmetric]
    by blast
  then show ?thesis
    by (simp add: w2_def w1_def u out_def)
qed

lemma catalog_updated_dump:
  "update g \<Longrightarrow> catalog_updated lib g t poname w (dump lib g t poname w)"
  using catalog_updated_step [of g lib t poname w] by (simp add: dump_def case_prod_beta)

lemma catalog_updated_Inner:
  assumes "update g" and "t \<noteq> []"
  shows "catalog_updated lib g t poname w (DumpLmuLmtInner lib g filename t poname w)"
  using assms(2)
    catalog_updated_step [OF assms(1), of lib t poname
      "cout_write ('' '' @ to_string (length t) @ '' term''
         @ (if length t = 1 then [] else ''s'') @ nl) w"]
  by (simp add: DumpLmuLmtInner_def Let_def case_prod_beta)

lemma catalog_updated_DumpLdb:
  assumes "update g"
  shows "\<exists>w1 w2.
     catalog_updated lib g
       (terms (Translation_fromLDB lib (files w) filename (encoding g))) ''RPG_RT.ldb'' w w1 \<and>
     catalog_updated lib g
       (common_events (Translation_fromLDB lib (files w) filename (encoding g)))
       ''RPG_RT.ldb.common'' w1 w2 \<and>
     catalog_updated lib g
       (battle_events (Translation_fromLDB lib (files w) filename (encoding g)))
       ''RPG_RT.ldb.battle'' w2 (DumpLdb lib g filename w)"
proof -
  define T where "T = Translation_fromLDB lib (files w) filename (encoding g)"
  define v1 where "v1 = cout_write ('' '' @ term_count (terms T) @ ''in the database'' @ nl) w"
  define w1 where "w1 = dump lib g (terms T) ''RPG_RT.ldb'' v1"
  define v2 where
    "v2 = cout_write ('' '' @ term_count (common_events T) @ ''in Common Events'' @ nl) w1"
  define w2 where "w2 = dump lib g (common_events T) ''RPG_RT.ldb.common'' v2"
  define v3 where
    "v3 = cout_write ('' '' @ term_count (battle_events T) @ ''in Battle Events'' @ nl) w2"
  have r: "DumpLdb lib g filename w = dump lib g (battle_events T) ''RPG_RT.ldb.battle'' v3"
    by (simp add: DumpLdb_def Let_def T_def v1_def w1_def v2_def w2_def v3_def)
  have "catalog_updated lib g (terms T) ''RPG_RT.ldb'' w w1"
    using catalog_updated_dump [OF assms, of lib "terms T" "''RPG_RT.ldb''" v1]
    by (simp add: w1_def v1_def)
  moreover have "catalog_updated lib g (common_events T) ''RPG_RT.ldb.common'' w1 w2"
    using catalog_updated_dump [OF assms, of lib "common_events T" "''RPG_RT.ldb.common''" v2]
    by (simp add: w2_def v2_def)
  moreover have "catalog_updated lib g (battle_events T) ''RPG_RT.ldb.battle'' w2
      (DumpLdb lib g filename w)"
    using catalog_updated_dump [OF assms, of lib "battle_events T" "''RPG_RT.ldb.battle''" v3]
    by (simp add: r v3_def)
  ultimately show ?thesis
    unfolding T_def by blast
qed

subsection \<open>Permutations of a directory listing\<close>

lemma filter_key_at_most_one:
  "distinct (map f xs) \<Longrightarrow> length (filter (\<lambda>x. f x = c) xs) \<le> 1"
proof (induction xs)
  case Nil
  show ?case by simp
next
  case (Cons a xs)
  show ?case
  proof (cases "f a = c")
    case True
    have "f x \<noteq> c" if "x \<in> set xs" for x
    proof
      assume "f x = c"
      moreover from that have "f x \<in> f ` set xs" by (rule imageI)
      ultimately have "f a \<in> f ` set xs" using True by simp
      with Cons.prems show False by simp
    qed
    then have "filter (\<lambda>x. f x = c) xs = []" by (simp add: filter_empty_conv)
    with True show ?thesis by simp
  next
    case False
    with Cons show ?thesis by simp
  qed
qed

lemma short_list_by_mset:
  assumes "mset xs = mset ys" and "length xs \<le> 1"
  shows "xs = ys"
proof (cases xs)
  case Nil
  with assms show ?thesis by simp
next
  case (Cons x xs')
  with assms have "xs = [x]" by simp
  with assms show ?thesis by (simp add: mset_single_iff_right)
qed

lemma filter_key_perm:
  assumes "mset xs = mset ys" and "distinct (map f xs)"
  shows "filter (\<lambda>x. f x = c) xs = filter (\<lambda>x. f x = c) ys"
proof (rule short_list_by_mset)
  show "mset (filter (\<lambda>x. f x = c) xs) = mset (filter (\<lambda>x. f x = c) ys)"
    using assms(1) by (simp add: mset_filter)
  show "length (filter (\<lambda>x. f x = c) xs) \<le> 1"
    using assms(2) by (rule filter_key_at_most_one)
qed

subsection \<open>get_outdir_file\<close>

lemma first_with_lname_filter:
  "first_with_lname fs file = (case filter (\<lambda>f. snd f = file) fs of [] \<Rightarrow> [] | f # _ \<Rightarrow> fst f)"
  by (induction fs) simp_all

lemma first_with_lname_perm:
  assumes "mset fs = mset fs'" and "distinct (map snd fs)"
  shows "first_with_lname fs file = first_with_lname fs' file"
  by (simp add: first_with_lname_filter filter_key_perm [OF assms])

subsection \<open>dir entries\<close>

lemma mset_dir_entries:
  "mset ns = mset ns' \<Longrightarrow> mset (dir_entries lib ns) = mset (dir_entries lib ns')"
  by (metis dir_entries_def mset_map)

lemma snd_dir_entries [simp]: "map snd (dir_entries lib ns) = map (Utils_LowerCase lib) ns"
  by (simp add: dir_entries_def comp_def)

lemma fst_dir_entries [simp]: "map fst (dir_entries lib ns) = ns"
  by (simp add: dir_entries_def comp_def)

lemma inj_fst_dir_entries: "inj_on fst (set (dir_entries lib ns))"
  by (auto simp: dir_entries_def inj_on_def)

lemma std_sort_dir_entries:
  "mset ns = mset ns' \<Longrightarrow> std_sort (dir_entries lib ns) = std_sort (dir_entries lib ns')"
  unfolding std_sort_def
proof (rule sort_key_eq_sort_key)
  assume "mset ns = mset ns'"
  then show "mset (dir_entries lib ns) = mset (dir_entries lib ns')"
    by (rule mset_dir_entries)
  show "inj_on fst (set (dir_entries lib ns))"
    by (rule inj_fst_dir_entries)
qed

lemma std_sort_unique:
  assumes "mset ys = mset fs" and "sorted (map fst ys)" and "inj_on fst (set fs)"
  shows "std_sort fs = ys"
  unfolding std_sort_def
  by (rule sort_key_inj_key_eq) (use assms in simp_all)

lemma sorted_std_sort: "sorted (map fst (std_sort fs))"
  and mset_std_sort: "mset (std_sort fs) = mset fs"
  by (simp_all add: std_sort_def)

text \<open>The order of names is the lexicographic order of their bytes, read as unsigned.\<close>

lemma string_less_bytewise:
  fixes x y :: char and xs ys :: string
  shows "\<not> xs < []" and "[] < y # ys"
    and "x # xs < y # ys \<longleftrightarrow>
      (of_char x :: nat) < of_char y \<or> (of_char x :: nat) = of_char y \<and> xs < ys"
  by (auto simp: less_char_def)

subsection \<open>What the dump functions read of the configuration\<close>

lemma same_configD:
  assumes "same_config g g'"
  shows "encoding g = encoding g'" "outdir g = outdir g'" "merge_indir g = merge_indir g'"
    "indir g = indir g'" "update g = update g'"
    "\<And>file. get_outdir_file g file = get_outdir_file g' file"
  using assms by (simp_all add: same_config_def)

lemma update_from_po_cong:
  assumes "same_config g g'"
  shows "update_from_po lib g t poname w = update_from_po lib g' t poname w"
  unfolding update_from_po_def same_configD [OF assms] by (rule refl)

lemma dump_cong:
  assumes "same_config g g'"
  shows "dump lib g t poname w = dump lib g' t poname w"
  unfolding dump_def update_from_po_cong [OF assms] same_configD [OF assms] by (rule refl)

lemma DumpLdb_cong:
  assumes "same_config g g'"
  shows "DumpLdb lib g filename w = DumpLdb lib g' filename w"
  unfolding DumpLdb_def dump_cong [OF assms] same_configD [OF assms] by (rule refl)

lemma DumpLmuLmtInner_cong:
  assumes "same_config g g'"
  shows "DumpLmuLmtInner lib g filename t poname w = DumpLmuLmtInner lib g' filename t poname w"
  unfolding DumpLmuLmtInner_def update_from_po_cong [OF assms] same_configD [OF assms]
  by (rule refl)

lemma DumpLmu_cong:
  assumes "same_config g g'"
  shows "DumpLmu lib g filename w = DumpLmu lib g' filename w"
  unfolding DumpLmu_def DumpLmuLmtInner_cong [OF assms] same_configD [OF assms] by (rule refl)

lemma DumpLmt_cong:
  assumes "same_config g g'"
  shows "DumpLmt lib g filename w = DumpLmt lib g' filename w"
  unfolding DumpLmt_def DumpLmuLmtInner_cong [OF assms] same_configD [OF assms] by (rule refl)

lemma process_file_cong:
  assumes "same_config g g'"
  shows "process_file lib g s w = process_file lib g' s w"
proof -
  from assms have "full_path g (fst s) = full_path g' (fst s)"
    by (simp add: same_config_def full_path_def)
  then show ?thesis
    by (simp add: process_file_def Let_def DumpLdb_cong [OF assms] DumpLmt_cong [OF assms]
        DumpLmu_cong [OF assms])
qed

lemma process_files_cong:
  "same_config g g' \<Longrightarrow> process_files lib g ss w = process_files lib g' ss w"
  by (induction ss arbitrary: w) (simp_all add: process_file_cong)

subsection \<open>The scan of the game directory\<close>

lemma pick_last_Cons:
  "pick_last lib dir target (n # ns) dflt =
     pick_last lib dir target ns (if Utils_LowerCase lib n = target then dir @ ''/'' @ n else dflt)"
  by (simp add: pick_last_def split: list.split)

lemma scan_indir_eq:
  "scan_indir lib names g =
     g\<lparr>source_files := source_files g @ dir_entries lib names,
       ini_file := pick_last lib (indir g) INI_FILE names (ini_file g),
       database_file := pick_last lib (indir g) DATABASE_FILE names (database_file g)\<rparr>"
proof (induction names arbitrary: g)
  case Nil
  show ?case by (simp add: dir_entries_def pick_last_def)
next
  case (Cons n names)
  have ne: "INI_FILE \<noteq> DATABASE_FILE"
    by (simp add: INI_FILE_def DATABASE_FILE_def)
  show ?case
    using ne
    by (simp add: Cons.IH Let_def pick_last_Cons full_path_def dir_entries_def)
qed

lemma pick_last_perm:
  assumes "mset ns = mset ns'" and "distinct (map (Utils_LowerCase lib) ns)"
  shows "pick_last lib dir target ns dflt = pick_last lib dir target ns' dflt"
  by (simp add: pick_last_def filter_key_perm [OF assms])

lemma detect_encoding_eq:
  "detect_encoding lib fs g =
     g\<lparr>encoding := detected lib fs (encoding g) (ini_file g) (database_file g)\<rparr>"
  by (simp add: detect_encoding_def detected_def Let_def split: option.split)

subsection \<open>Match mode\<close>

lemma match_pair_cong:
  assumes "indir g = indir g'" "merge_indir g = merge_indir g'" "outdir g = outdir g'"
  shows "match_pair lib g s d w = match_pair lib g' s d w"
  unfolding match_pair_def assms by (rule refl)

lemma match_inner_fold:
  "match_inner lib g s ds w = fold (match_pair lib g s) (filter (\<lambda>d. snd d = snd s) ds) w"
  by (induction ds arbitrary: w) auto

lemma match_inner_perm:
  assumes "indir g = indir g'" "merge_indir g = merge_indir g'" "outdir g = outdir g'"
    and "mset ds = mset ds'" and "distinct (map snd ds)"
  shows "match_inner lib g s ds w = match_inner lib g' s ds' w"
proof -
  have "match_pair lib g s = match_pair lib g' s"
    using match_pair_cong [OF assms(1-3)] by blast
  moreover have "filter (\<lambda>d. snd d = snd s) ds = filter (\<lambda>d. snd d = snd s) ds'"
    using assms(4,5) by (rule filter_key_perm)
  ultimately show ?thesis by (simp add: match_inner_fold)
qed

lemma match_outer_perm:
  assumes "indir g = indir g'" "merge_indir g = merge_indir g'" "outdir g = outdir g'"
    and "mset (outdir_files g) = mset (outdir_files g')"
    and "distinct (map snd (outdir_files g))"
  shows "match_outer lib g ss w = match_outer lib g' ss w"
proof (induction ss arbitrary: w)
  case Nil
  show ?case by simp
next
  case (Cons s ss)
  have "match_inner lib g s (outdir_files g) w = match_inner lib g' s (outdir_files g') w"
    using assms by (rule match_inner_perm)
  then show ?case
    by (simp add: Cons.IH split: option.split bool.split)
qed

lemma MatchMode_perm:
  assumes "indir g = indir g'" "merge_indir g = merge_indir g'" "outdir g = outdir g'"
    and "mset (outdir_files g) = mset (outdir_files g')"
    and "distinct (map snd (outdir_files g))"
    and "std_sort (source_files g) = std_sort (source_files g')"
  shows "MatchMode lib g w = MatchMode lib g' w"
proof -
  have "match_outer lib (sort_source_files g) ss w = match_outer lib (sort_source_files g') ss w"
    for ss
    by (rule match_outer_perm) (use assms in \<open>simp_all add: sort_source_files_def\<close>)
  then show ?thesis
    by (simp add: MatchMode_def Let_def) (simp add: sort_source_files_def assms(6))
qed

subsection \<open>Create and update\<close>

lemma same_listing_cases:
  assumes "same_listing dirs dirs' d"
  obtains "dirs d = None" "dirs' d = None"
  | ns ns' where "dirs d = Some ns" "dirs' d = Some ns'" "mset ns = mset ns'"
  using assms by (auto simp: same_listing_def split: option.splits)

lemma same_config_outdir_files:
  assumes "mset fs = mset fs'" and "distinct (map snd fs)"
  shows "same_config (g\<lparr>outdir_files := fs\<rparr>) (g\<lparr>outdir_files := fs'\<rparr>)"
  by (simp add: same_config_def get_outdir_file_def first_with_lname_perm [OF assms])

lemma main_extract_perm:
  assumes cfg: "same_config g g'"
    and same: "ini_file g = ini_file g'" "database_file g = database_file g'"
      "source_files g = []" "source_files g' = []"
    and listing: "same_listing dirs dirs' (indir g)" "case_distinct lib dirs (indir g)"
  shows "main_extract lib dirs g w = main_extract lib dirs' g' w"
proof -
  note c = same_configD [OF cfg]
  from listing(1) show ?thesis
  proof (cases rule: same_listing_cases)
    case 1
    then show ?thesis by (simp add: main_extract_def c)
  next
    case (2 ns ns')
    from listing(2) 2 have d: "distinct (map (Utils_LowerCase lib) ns)"
      by (simp add: case_distinct_def)
    define enc where "enc = detected lib (files w) (encoding g)
        (pick_last lib (indir g) INI_FILE ns (ini_file g))
        (pick_last lib (indir g) DATABASE_FILE ns (database_file g))"
    define g2 where "g2 = detect_encoding lib (files w) (scan_indir lib ns g)"
    define g2' where "g2' = detect_encoding lib (files w) (scan_indir lib ns' g')"
    have p: "pick_last lib dir target ns dflt = pick_last lib dir target ns' dflt"
      for dir target dflt
      using 2(3) d by (rule pick_last_perm)
    have e2: "encoding g2 = enc" "encoding g2' = enc"
      by (simp_all add: g2_def g2'_def enc_def detect_encoding_eq scan_indir_eq c same p)
    have s2: "source_files (sort_source_files g2) = std_sort (dir_entries lib ns)"
      "source_files (sort_source_files g2') = std_sort (dir_entries lib ns)"
      using std_sort_dir_entries [OF 2(3), of lib]
      by (simp_all add: g2_def g2'_def sort_source_files_def detect_encoding_eq scan_indir_eq same)
    have "same_config (sort_source_files g2) (sort_source_files g2')"
      using cfg e2
      by (simp add: same_config_def g2_def g2'_def sort_source_files_def detect_encoding_eq
          scan_indir_eq get_outdir_file_def)
    then have "process_files lib (sort_source_files g2) ss w' =
        process_files lib (sort_source_files g2') ss w'" for ss w'
      by (rule process_files_cong)
    then show ?thesis
      using 2 e2 s2
      by (simp add: main_extract_def c Let_def flip: g2_def g2'_def)
  qed
qed

lemma main_extract_sorted:
  assumes "fst (main_extract lib dirs h w) = Returned 0"
  shows "\<exists>g3 w2 names. dirs (indir h) = Some names \<and>
     main_extract lib dirs h w = (Returned 0, process_files lib g3 (source_files g3) w2) \<and>
     sorted (map fst (source_files g3)) \<and>
     mset (source_files g3) = mset (source_files h @ dir_entries lib names)"
proof (cases "dirs (indir h)")
  case None
  with assms show ?thesis by (simp add: main_extract_def)
next
  case (Some names)
  define g2 where "g2 = detect_encoding lib (files w) (scan_indir lib names h)"
  define w2 where "w2 = cout_write (''Using encoding '' @ encoding g2 @ nl)
      (cout_write (''LcfTrans'' @ nl) w)"
  from assms Some have ok: "Encoder_IsOk lib (encoding g2)"
    by (auto simp: main_extract_def Let_def g2_def split: if_splits)
  have "main_extract lib dirs h w =
      (Returned 0, process_files lib (sort_source_files g2) (source_files (sort_source_files g2)) w2)"
    using Some ok by (simp add: main_extract_def Let_def g2_def w2_def)
  moreover have "sorted (map fst (source_files (sort_source_files g2)))"
    by (simp add: sort_source_files_def sorted_std_sort)
  moreover have "mset (source_files (sort_source_files g2)) =
      mset (source_files h @ dir_entries lib names)"
    by (simp add: sort_source_files_def mset_std_sort g2_def detect_encoding_eq scan_indir_eq)
  ultimately show ?thesis using Some by blast
qed

lemma main_perm:
  assumes src: "source_files g = []" and out: "outdir_files g = []"
    and l_out: "same_listing dirs dirs' (outdir g)" "update g \<Longrightarrow> case_distinct lib dirs (outdir g)"
    and l_in: "same_listing dirs dirs' (indir g)" "case_distinct lib dirs (indir g)"
    and l_m: "same_listing dirs dirs' (merge_indir g)"
  shows "main lib dirs g w = main lib dirs' g w"
proof (cases "outdir g = merge_indir g")
  case True
  then show ?thesis by (simp add: main_def)
next
  case False
  from l_out(1) show ?thesis
  proof (cases rule: same_listing_cases)
    case 1
    then show ?thesis by (simp add: main_def read_dirs_def)
  next
    case out_names: (2 ons ons')
    show ?thesis
    proof (cases "update g")
      case True
      with l_out(2) out_names have d_out: "distinct (map (Utils_LowerCase lib) ons)"
        by (simp add: case_distinct_def)
      define g1 where "g1 = g\<lparr>outdir_files := dir_entries lib ons\<rparr>"
      define g1' where "g1' = g\<lparr>outdir_files := dir_entries lib ons'\<rparr>"
      have r: "read_dirs lib dirs g w = Inr g1" "read_dirs lib dirs' g w = Inr g1'"
        using True out_names out by (simp_all add: read_dirs_def g1_def g1'_def)
      have m: "mset (dir_entries lib ons) = mset (dir_entries lib ons')"
        using out_names(3) by (rule mset_dir_entries)
      have cfg: "same_config g1 g1'"
        unfolding g1_def g1'_def
        by (rule same_config_outdir_files) (use m d_out in simp_all)
      have "MatchMode lib g1 w = MatchMode lib g1' w"
        by (rule MatchMode_perm) (use m d_out in \<open>simp_all add: g1_def g1'_def\<close>)
      moreover have "main_extract lib dirs g1 w = main_extract lib dirs' g1' w"
        by (rule main_extract_perm [OF cfg])
          (use l_in src in \<open>simp_all add: g1_def g1'_def\<close>)
      moreover have "match g1 = match g1'"
        by (simp add: g1_def g1'_def)
      ultimately show ?thesis
        using False by (simp add: main_def r)
    next
      case no_update: False
      show ?thesis
      proof (cases "match g")
        case False
        have "same_config g g" by (simp add: same_config_def)
        then have "main_extract lib dirs g w = main_extract lib dirs' g w"
          by (rule main_extract_perm) (use l_in src in simp_all)
        then show ?thesis
          using False no_update out_names \<open>outdir g \<noteq> merge_indir g\<close>
          by (simp add: main_def read_dirs_def)
      next
        case True
        from l_in(1) show ?thesis
        proof (cases rule: same_listing_cases)
          case 1
          then show ?thesis
            using True no_update out_names by (simp add: main_def read_dirs_def)
        next
          case in_names: (2 ins ins')
          from l_in(2) in_names have d_in: "distinct (map (Utils_LowerCase lib) ins)"
            by (simp add: case_distinct_def)
          from l_m show ?thesis
          proof (cases rule: same_listing_cases)
            case 1
            then show ?thesis
              using True no_update out_names in_names by (simp add: main_def read_dirs_def)
          next
            case m_names: (2 mns mns')
            define g1 where "g1 = g\<lparr>outdir_files := dir_entries lib ins,
                source_files := dir_entries lib mns\<rparr>"
            define g1' where "g1' = g\<lparr>outdir_files := dir_entries lib ins',
                source_files := dir_entries lib mns'\<rparr>"
            have r: "read_dirs lib dirs g w = Inr g1" "read_dirs lib dirs' g w = Inr g1'"
              using True no_update out_names in_names m_names out src
              by (simp_all add: read_dirs_def g1_def g1'_def)
            have m: "mset (dir_entries lib ins) = mset (dir_entries lib ins')"
              using in_names(3) by (rule mset_dir_entries)
            have s: "std_sort (dir_entries lib mns) = std_sort (dir_entries lib mns')"
              using m_names(3) by (rule std_sort_dir_entries)
            have "MatchMode lib g1 w = MatchMode lib g1' w"
              by (rule MatchMode_perm) (use m d_in s in \<open>simp_all add: g1_def g1'_def\<close>)
            then show ?thesis
              using True \<open>outdir g \<noteq> merge_indir g\<close>
              by (simp add: main_def r) (simp add: g1_def g1'_def)
          qed
        qed
      qed
    qed
  qed
qed

subsection \<open>The concrete run\<close>

lemma demo_update_read_fields:
  "update demo_update_read" "outdir demo_update_read = ''out''"
  by (simp_all add: demo_update_read_def demo_update_def)

lemma demo_existing:
  "get_outdir_file demo_update_read (Utils_LowerCase standin ''Map0001.po'') = ''Map0001.po''"
  "get_outdir_file demo_update_read (Utils_LowerCase standin ''Map0002.po'') = ''Map0002.po''"
  by code_simp+

lemma demo_merge_po:
  "Translation_Merge standin hello_bye
     (Translation_fromPO standin (files demo_world) ''out/Map0001.po'') =
   ([salut, plain_entry ''Bye''], [parti])"
  by code_simp

lemma hello_bye_not_empty: "hello_bye \<noteq> []"
  by (simp add: hello_bye_def)

lemma demo_empty_map:
  "Translation_fromLMU standin (files demo_world) ''game/Map0002.lmu'' (encoding demo_update_read) = []"
  by code_simp

lemma demo_old_catalog: "files demo_world ''out/Map0001.po'' = Some (write_plain [salut, parti])"
  by (simp add: demo_world_def demo_files_def)

lemma demo_cut: "take 5 (Translation_write standin [bonjour]) = ''msgid''"
  by code_simp

lemma demo_texts:
  "''msgid'' \<noteq> write_plain [salut, parti]" "''msgid'' \<noteq> Translation_write standin [bonjour]"
  by code_simp+

lemma demo_skipped:
  "Translation_Merge standin []
     (Translation_fromPO standin (files demo_world) ''out/Map0002.po'') = ([], [parti])"
  "written (DumpLmu standin demo_update_read ''game/Map0002.lmu'' demo_world) = []"
  "files (DumpLmu standin demo_update_read ''game/Map0002.lmu'' demo_world)
     ''out/Map0002.stale.po'' = None"
  "files (DumpLmu standin demo_update_read ''game/Map0002.lmu'' demo_world) ''out/Map0002.po''
     = Some (write_plain [parti])"
  "write_plain [parti] \<noteq> Translation_write standin []"
  by code_simp+

lemma demo_protected:
  "written (DumpLmuLmtInner standin demo_update_read ''game/Map0001.lmu'' hello_bye ''Map0001''
     demo_world_protected) = [''out/Map0001.stale.po'']"
  "files (DumpLmuLmtInner standin demo_update_read ''game/Map0001.lmu'' hello_bye ''Map0001''
     demo_world_protected) ''out/Map0001.po'' = Some (write_plain [salut, parti])"
  "write_plain [salut, parti] \<noteq> Translation_write standin [salut, plain_entry ''Bye'']"
  by code_simp+

lemma demo_update_fields:
  "source_files demo_update = []" "outdir_files demo_update = []"
  "outdir demo_update = ''out''" "indir demo_update = ''game''" "merge_indir demo_update = []"
  "update demo_update"
  by (simp_all add: demo_update_def)

lemma demo_same_listing:
  "same_listing demo_dirs demo_dirs_shuffled ''out''"
  "same_listing demo_dirs demo_dirs_shuffled ''game''"
  "same_listing demo_dirs demo_dirs_shuffled []"
  by (simp_all add: same_listing_def demo_dirs_def demo_dirs_shuffled_def)

lemma demo_case_distinct:
  "case_distinct standin demo_dirs ''out''" "case_distinct standin demo_dirs ''game''"
  by code_simp+

lemma demo_listing_differs: "demo_dirs ''out'' \<noteq> demo_dirs_shuffled ''out''"
  by (simp add: demo_dirs_def demo_dirs_shuffled_def)

lemma demo_run_cout:
  "cout (snd (main standin demo_dirs demo_update demo_world)) =
     ''LcfTrans'' @ nl @ ''Using encoding 1252'' @ nl @
     ''Parsing Map Map0001.lmu'' @ nl @ '' 2 terms'' @ nl @ '' 1 term is stale'' @ nl @
     ''Parsing Map Map0002.lmu'' @ nl @ '' Skipped. No terms found.'' @ nl"
  "fst (main_extract standin demo_dirs demo_update_read demo_world) = Returned 0"
  by code_simp+

lemma demo_two_same_listing:
  "same_listing demo_dirs_two demo_dirs_two_shuffled ''out''"
  "same_listing demo_dirs_two demo_dirs_two_shuffled ''game''"
  "same_listing demo_dirs_two demo_dirs_two_shuffled []"
  by (simp_all add: same_listing_def demo_dirs_two_def demo_dirs_two_shuffled_def)

lemma demo_two_runs:
  "files (snd (main standin demo_dirs_two demo_update demo_world_two)) ''out/Map0001.po''
     = Some (write_plain [bonjour, plain_entry ''Bye''])"
  "files (snd (main standin demo_dirs_two_shuffled demo_update demo_world_two)) ''out/Map0001.po''
     = Some (write_plain [salut, plain_entry ''Bye''])"
  "write_plain [bonjour, plain_entry ''Bye''] \<noteq> write_plain [salut, plain_entry ''Bye'']"
  by code_simp+

section \<open>The driver: the claims\<close>

text \<open>
  C8, as the driver has it. In the update workflow each of the three catalogs of a
  database, and the catalog of a map or of the map tree when it is not empty, is updated
  as \<open>catalog_updated\<close> says: its \<^verbatim>\<open>.po\<close> file is opened and then holds the catalog after the
  merge, and the file \<^verbatim>\<open>.stale.po\<close>, another name, is opened if and only if the stale
  catalog that the merge returns is not empty, and then holds it; a path that cannot be
  opened is left alone, and nothing else is opened or changed. A map or a map tree whose
  catalog is empty is skipped: nothing is merged, opened or changed.
\<close>

theorem update_writes_merged_and_stale:
  assumes "update g"
  shows
    "catalog_updated lib g t poname w (dump lib g t poname w) \<and>
     (\<exists>w1 w2.
        catalog_updated lib g
          (terms (Translation_fromLDB lib (files w) filename (encoding g)))
          ''RPG_RT.ldb'' w w1 \<and>
        catalog_updated lib g
          (common_events (Translation_fromLDB lib (files w) filename (encoding g)))
          ''RPG_RT.ldb.common'' w1 w2 \<and>
        catalog_updated lib g
          (battle_events (Translation_fromLDB lib (files w) filename (encoding g)))
          ''RPG_RT.ldb.battle'' w2 (DumpLdb lib g filename w)) \<and>
     (if t = [] then
        DumpLmuLmtInner lib g filename t poname w =
          cout_write ('' Skipped. No terms found.'' @ nl) w
      else catalog_updated lib g t poname w (DumpLmuLmtInner lib g filename t poname w)) \<and>
     (if Translation_fromLMU lib (files w) filename (encoding g) = [] then
        DumpLmu lib g filename w = cout_write ('' Skipped. No terms found.'' @ nl) w
      else
        catalog_updated lib g (Translation_fromLMU lib (files w) filename (encoding g))
          (Utils_GetFilename lib filename) w (DumpLmu lib g filename w)) \<and>
     (if Translation_fromLMT lib (files w) filename (encoding g) = [] then
        DumpLmt lib g filename w = cout_write ('' Skipped. No terms found.'' @ nl) w
      else
        catalog_updated lib g (Translation_fromLMT lib (files w) filename (encoding g))
          ''RPG_RT.lmt'' w (DumpLmt lib g filename w))"
proof -
  have skip: "DumpLmuLmtInner lib g filename [] p w =
      cout_write ('' Skipped. No terms found.'' @ nl) w" for p
    by (simp add: DumpLmuLmtInner_def)
  have inner: "if t = [] then
        DumpLmuLmtInner lib g filename t p w = cout_write ('' Skipped. No terms found.'' @ nl) w
      else catalog_updated lib g t p w (DumpLmuLmtInner lib g filename t p w)" for t p
  proof (cases "t = []")
    case True
    with skip [of p] show ?thesis by simp
  next
    case False
    with catalog_updated_Inner [OF assms False, of lib p w filename] show ?thesis by simp
  qed
  have "if Translation_fromLMU lib (files w) filename (encoding g) = [] then
        DumpLmu lib g filename w = cout_write ('' Skipped. No terms found.'' @ nl) w
      else
        catalog_updated lib g (Translation_fromLMU lib (files w) filename (encoding g))
          (Utils_GetFilename lib filename) w (DumpLmu lib g filename w)"
    unfolding DumpLmu_def Let_def by (rule inner)
  moreover have "if Translation_fromLMT lib (files w) filename (encoding g) = [] then
        DumpLmt lib g filename w = cout_write ('' Skipped. No terms found.'' @ nl) w
      else
        catalog_updated lib g (Translation_fromLMT lib (files w) filename (encoding g))
          ''RPG_RT.lmt'' w (DumpLmt lib g filename w)"
    unfolding DumpLmt_def Let_def by (rule inner)
  ultimately show ?thesis
    using catalog_updated_dump [OF assms, of lib t poname w]
      catalog_updated_DumpLdb [OF assms, of lib w filename] inner [of t poname]
    by blast
qed

theorem update_writes_merged_and_stale_witness:
  "update demo_update_read \<and> hello_bye \<noteq> [] \<and>
   catalog_updated standin demo_update_read hello_bye ''Map0001'' demo_world
     (DumpLmuLmtInner standin demo_update_read ''game/Map0001.lmu'' hello_bye ''Map0001''
        demo_world) \<and>
   written (DumpLmuLmtInner standin demo_update_read ''game/Map0001.lmu'' hello_bye ''Map0001''
        demo_world) = [''out/Map0001.stale.po'', ''out/Map0001.po''] \<and>
   files (DumpLmuLmtInner standin demo_update_read ''game/Map0001.lmu'' hello_bye ''Map0001''
        demo_world) ''out/Map0001.po''
     = Some (Translation_write standin [salut, plain_entry ''Bye'']) \<and>
   files (DumpLmuLmtInner standin demo_update_read ''game/Map0001.lmu'' hello_bye ''Map0001''
        demo_world) ''out/Map0001.stale.po''
     = Some (Translation_write standin [parti])"
proof -
  define w' where "w' = DumpLmuLmtInner standin demo_update_read ''game/Map0001.lmu''
      hello_bye ''Map0001'' demo_world"
  have c: "catalog_updated standin demo_update_read hello_bye ''Map0001'' demo_world w'"
    using update_writes_merged_and_stale [OF demo_update_read_fields(1),
        of standin hello_bye "''Map0001''" demo_world "''game/Map0001.lmu''"]
      hello_bye_not_empty
    by (simp add: w'_def)
  have e: "refuses demo_world = {}" "written demo_world = []"
    by (simp_all add: demo_world_def)
  from c have "written w' = [''out/Map0001.stale.po'', ''out/Map0001.po''] \<and>
      files w' = (files demo_world)
        (''out/Map0001.stale.po'' \<mapsto> Translation_write standin [parti],
         ''out/Map0001.po'' \<mapsto> Translation_write standin [salut, plain_entry ''Bye''])"
    by (simp add: catalog_updated_def Let_def demo_update_read_fields demo_existing
        demo_merge_po e)
  then have "written w' = [''out/Map0001.stale.po'', ''out/Map0001.po''] \<and>
      files w' ''out/Map0001.po'' = Some (Translation_write standin [salut, plain_entry ''Bye''])
      \<and> files w' ''out/Map0001.stale.po'' = Some (Translation_write standin [parti])"
    by simp
  with c demo_update_read_fields(1) hello_bye_not_empty show ?thesis
    unfolding w'_def by blast
qed

text \<open>
  C8 as stated fails. In an update the map \<^verbatim>\<open>Map0002.lmu\<close> has no text and is skipped: its
  earlier catalog would be stale as a whole, yet no \<^verbatim>\<open>.stale.po\<close> is written, and
  \<^verbatim>\<open>Map0002.po\<close> is not written either. And where the catalog of \<^verbatim>\<open>Map0001.lmu\<close> cannot be
  opened for writing, the merged catalog is not written to it.
\<close>

theorem update_does_not_always_write:
  "update demo_update_read \<and>
   Translation_fromLMU standin (files demo_world) ''game/Map0002.lmu''
     (encoding demo_update_read) = [] \<and>
   get_outdir_file demo_update_read (Utils_LowerCase standin ''Map0002.po'') = ''Map0002.po'' \<and>
   Translation_Merge standin []
     (Translation_fromPO standin (files demo_world) ''out/Map0002.po'') = ([], [parti]) \<and>
   written (DumpLmu standin demo_update_read ''game/Map0002.lmu'' demo_world) = [] \<and>
   files (DumpLmu standin demo_update_read ''game/Map0002.lmu'' demo_world)
     ''out/Map0002.stale.po'' = None \<and>
   files (DumpLmu standin demo_update_read ''game/Map0002.lmu'' demo_world) ''out/Map0002.po''
     = Some (write_plain [parti]) \<and>
   write_plain [parti] \<noteq> Translation_write standin [] \<and>
   written (DumpLmuLmtInner standin demo_update_read ''game/Map0001.lmu'' hello_bye ''Map0001''
     demo_world_protected) = [''out/Map0001.stale.po''] \<and>
   files (DumpLmuLmtInner standin demo_update_read ''game/Map0001.lmu'' hello_bye ''Map0001''
     demo_world_protected) ''out/Map0001.po'' = Some (write_plain [salut, parti]) \<and>
   write_plain [salut, parti] \<noteq> Translation_write standin [salut, plain_entry ''Bye'']"
  using demo_update_read_fields(1) demo_empty_map demo_existing(2) demo_skipped demo_protected
  by simp

text \<open>
  C10. A map or a map tree whose extracted catalog is empty is skipped: the message is
  printed, and nothing else happens, whether the run creates or updates. No file is opened
  for writing, no file changes, and no earlier catalog is read or merged (the result does
  not depend on them).
\<close>

theorem empty_map_is_skipped:
  "DumpLmuLmtInner lib g filename [] poname w =
     cout_write ('' Skipped. No terms found.'' @ nl) w \<and>
   files (DumpLmuLmtInner lib g filename [] poname w) = files w \<and>
   newly_written w (DumpLmuLmtInner lib g filename [] poname w) = [] \<and>
   (Translation_fromLMU lib (files w) filename (encoding g) = [] \<longrightarrow>
      DumpLmu lib g filename w = cout_write ('' Skipped. No terms found.'' @ nl) w \<and>
      files (DumpLmu lib g filename w) = files w \<and>
      newly_written w (DumpLmu lib g filename w) = []) \<and>
   (Translation_fromLMT lib (files w) filename (encoding g) = [] \<longrightarrow>
      DumpLmt lib g filename w = cout_write ('' Skipped. No terms found.'' @ nl) w \<and>
      files (DumpLmt lib g filename w) = files w \<and>
      newly_written w (DumpLmt lib g filename w) = [])"
  by (simp add: DumpLmuLmtInner_def DumpLmu_def DumpLmt_def newly_written_def)

theorem empty_map_is_skipped_witness:
  "update demo_update_read \<and>
   Translation_fromLMU standin (files demo_world) ''game/Map0002.lmu''
     (encoding demo_update_read) = [] \<and>
   get_outdir_file demo_update_read (Utils_LowerCase standin ''Map0002.po'') = ''Map0002.po'' \<and>
   DumpLmu standin demo_update_read ''game/Map0002.lmu'' demo_world =
     cout_write ('' Skipped. No terms found.'' @ nl) demo_world \<and>
   files (DumpLmu standin demo_update_read ''game/Map0002.lmu'' demo_world)
     = files demo_world \<and>
   newly_written demo_world (DumpLmu standin demo_update_read ''game/Map0002.lmu'' demo_world)
     = [] \<and>
   files (DumpLmu standin (demo_update_read\<lparr>update := False, create := True\<rparr>)
     ''game/Map0002.lmu'' demo_world) = files demo_world"
proof -
  have u: "update demo_update_read"
    by (simp add: demo_update_read_def demo_update_def)
  have e: "encoding (demo_update_read\<lparr>update := False, create := True\<rparr>)
      = encoding demo_update_read"
    by simp
  show ?thesis
    using empty_map_is_skipped [of standin demo_update_read "''game/Map0002.lmu''" "[]" demo_world]
      empty_map_is_skipped [of standin "demo_update_read\<lparr>update := False, create := True\<rparr>"
        "''game/Map0002.lmu''" "[]" demo_world]
      demo_empty_map u demo_existing(2)
    unfolding e by blast
qed

text \<open>
  C6, as the driver has it. The output file is opened, and so emptied, before the text of
  the catalog is produced, and the text is then streamed into it. A write that completes
  leaves exactly the text in the file; a write cut short after \<open>k\<close> bytes leaves the first
  \<open>k\<close> bytes of the text in place of what the file held before. No other file changes.
  When the file cannot be opened, nothing is written and nothing changes.
\<close>

theorem write_opens_then_streams:
  "write_to lib t path w = write_to_cut (length (Translation_write lib t)) lib t path w \<and>
   (if path \<in> refuses w then
      write_to_cut k lib t path w = w \<and> write_to lib t path w = w
    else
      files (write_to_cut k lib t path w)
        = (files w)(path \<mapsto> take k (Translation_write lib t)) \<and>
      written (write_to_cut k lib t path w) = written w @ [path] \<and>
      files (write_to lib t path w) = (files w)(path \<mapsto> Translation_write lib t) \<and>
      written (write_to lib t path w) = written w @ [path])"
  by (simp add: write_to_cut_eq write_to_eq)

theorem write_opens_then_streams_witness:
  "''out/Map0001.po'' \<notin> refuses demo_world \<and>
   files (write_to_cut 5 standin [bonjour] ''out/Map0001.po'' demo_world) ''out/Map0001.po''
     = Some ''msgid'' \<and>
   files (write_to standin [bonjour] ''out/Map0001.po'' demo_world) ''out/Map0001.po''
     = Some (Translation_write standin [bonjour]) \<and>
   ''out/Map0001.po'' \<in> refuses demo_world_protected \<and>
   write_to standin [bonjour] ''out/Map0001.po'' demo_world_protected = demo_world_protected"
proof -
  have n: "''out/Map0001.po'' \<notin> refuses demo_world"
    by (simp add: demo_world_def)
  have r: "''out/Map0001.po'' \<in> refuses demo_world_protected"
    by (simp add: demo_world_protected_def)
  from write_opens_then_streams [of standin "[bonjour]" "''out/Map0001.po''" demo_world 5]
  have "files (write_to_cut 5 standin [bonjour] ''out/Map0001.po'' demo_world)
        = (files demo_world)(''out/Map0001.po'' \<mapsto> take 5 (Translation_write standin [bonjour]))
      \<and> written (write_to_cut 5 standin [bonjour] ''out/Map0001.po'' demo_world)
        = written demo_world @ [''out/Map0001.po'']
      \<and> files (write_to standin [bonjour] ''out/Map0001.po'' demo_world)
        = (files demo_world)(''out/Map0001.po'' \<mapsto> Translation_write standin [bonjour])
      \<and> written (write_to standin [bonjour] ''out/Map0001.po'' demo_world)
        = written demo_world @ [''out/Map0001.po'']"
    unfolding if_not_P [OF n] by (rule conjunct2)
  then have a: "files (write_to_cut 5 standin [bonjour] ''out/Map0001.po'' demo_world) =
      (files demo_world)(''out/Map0001.po'' \<mapsto> take 5 (Translation_write standin [bonjour]))"
    and b: "files (write_to standin [bonjour] ''out/Map0001.po'' demo_world) =
      (files demo_world)(''out/Map0001.po'' \<mapsto> Translation_write standin [bonjour])"
    by blast+
  from write_opens_then_streams
    [of standin "[bonjour]" "''out/Map0001.po''" demo_world_protected 5]
  have "write_to_cut 5 standin [bonjour] ''out/Map0001.po'' demo_world_protected
        = demo_world_protected
      \<and> write_to standin [bonjour] ''out/Map0001.po'' demo_world_protected
        = demo_world_protected"
    unfolding if_P [OF r] by (rule conjunct2)
  then have c: "write_to standin [bonjour] ''out/Map0001.po'' demo_world_protected
      = demo_world_protected"
    by (rule conjunct2)
  show ?thesis using n r c by (simp add: a b demo_cut)
qed

text \<open>
  C6 as stated fails: a write of the catalog for \<open>bonjour\<close> over the earlier catalog,
  cut short after five bytes, leaves a file that holds neither the earlier catalog nor
  the new one.
\<close>

theorem write_leaves_truncated_file:
  "files demo_world ''out/Map0001.po'' = Some (write_plain [salut, parti]) \<and>
   files (write_to_cut 5 standin [bonjour] ''out/Map0001.po'' demo_world) ''out/Map0001.po''
     = Some ''msgid'' \<and>
   ''msgid'' \<noteq> write_plain [salut, parti] \<and>
   ''msgid'' \<noteq> Translation_write standin [bonjour]"
proof -
  have "''out/Map0001.po'' \<notin> refuses demo_world"
    by (simp add: demo_world_def)
  then show ?thesis
    using demo_old_catalog demo_texts by (simp add: write_to_cut_eq demo_cut)
qed

text \<open>
  C9, as the driver has it. In the extraction workflows and in match mode alike the loop
  over the source files runs over the list sorted by name, byte by byte (the order of
  \<^typ>\<open>string\<close> is the lexicographic order of the bytes read as unsigned), and the
  sorted list holds the files found, each as often. When, in addition, no two names of the
  game directory (and, for an update, of the output directory) are the same once
  lower-cased, two runs that differ only in the order in which the directories are
  enumerated end the same way and leave the same files and the same console output.
\<close>

theorem sorted_run_is_deterministic:
  assumes "source_files g = []" and "outdir_files g = []"
    and "\<forall>d \<in> {outdir g, indir g, merge_indir g}. same_listing dirs dirs' d"
    and "case_distinct lib dirs (indir g)"
    and "update g \<longrightarrow> case_distinct lib dirs (outdir g)"
  shows
    "sorted (map fst (source_files (sort_source_files h))) \<and>
     mset (source_files (sort_source_files h)) = mset (source_files h) \<and>
     MatchMode lib h w =
       match_outer lib (sort_source_files h) (source_files (sort_source_files h)) w \<and>
     (fst (main_extract lib dirs h w) = Returned 0 \<longrightarrow>
        (\<exists>g3 w2 names. dirs (indir h) = Some names \<and>
           main_extract lib dirs h w =
             (Returned 0, process_files lib g3 (source_files g3) w2) \<and>
           sorted (map fst (source_files g3)) \<and>
           mset (source_files g3) = mset (source_files h @ dir_entries lib names))) \<and>
     main lib dirs g w = main lib dirs' g w"
proof -
  have "main lib dirs g w = main lib dirs' g w"
    by (rule main_perm) (use assms in simp_all)
  moreover have "MatchMode lib h w =
      match_outer lib (sort_source_files h) (source_files (sort_source_files h)) w"
    by (simp add: MatchMode_def Let_def)
  moreover have "sorted (map fst (source_files (sort_source_files h)))"
    "mset (source_files (sort_source_files h)) = mset (source_files h)"
    by (simp_all add: sort_source_files_def sorted_std_sort mset_std_sort)
  ultimately show ?thesis
    using main_extract_sorted [of lib dirs h w] by blast
qed

theorem sorted_run_is_deterministic_witness:
  "source_files demo_update = [] \<and> outdir_files demo_update = [] \<and>
   same_listing demo_dirs demo_dirs_shuffled ''out'' \<and>
   same_listing demo_dirs demo_dirs_shuffled ''game'' \<and>
   case_distinct standin demo_dirs ''out'' \<and> case_distinct standin demo_dirs ''game'' \<and>
   demo_dirs ''out'' \<noteq> demo_dirs_shuffled ''out'' \<and>
   main standin demo_dirs demo_update demo_world =
     main standin demo_dirs_shuffled demo_update demo_world \<and>
   fst (main_extract standin demo_dirs demo_update_read demo_world) = Returned 0 \<and>
   (\<exists>g3 w2. main_extract standin demo_dirs demo_update_read demo_world =
       (Returned 0, process_files standin g3 (source_files g3) w2) \<and>
     sorted (map fst (source_files g3)))"
proof -
  have l: "\<forall>d \<in> {outdir demo_update, indir demo_update, merge_indir demo_update}.
      same_listing demo_dirs demo_dirs_shuffled d"
    by (simp add: demo_update_fields demo_same_listing)
  have c: "case_distinct standin demo_dirs (indir demo_update)"
    "update demo_update \<longrightarrow> case_distinct standin demo_dirs (outdir demo_update)"
    by (simp_all add: demo_update_fields demo_case_distinct)
  note t = sorted_run_is_deterministic [OF demo_update_fields(1,2) l c,
      where h = demo_update_read and w = demo_world]
  from t have "main standin demo_dirs demo_update demo_world =
      main standin demo_dirs_shuffled demo_update demo_world"
    by blast
  moreover from t demo_run_cout(2) have "\<exists>g3 w2.
      main_extract standin demo_dirs demo_update_read demo_world =
        (Returned 0, process_files standin g3 (source_files g3) w2) \<and>
      sorted (map fst (source_files g3))"
    by blast
  ultimately show ?thesis
    using demo_update_fields demo_same_listing demo_case_distinct demo_listing_differs
      demo_run_cout(2)
    by blast
qed

text \<open>
  C9 as stated fails. \<^verbatim>\<open>outdir_files\<close> is never sorted, and \<^verbatim>\<open>get_outdir_file\<close> returns the
  first name that matches without regard to case: with \<^verbatim>\<open>MAP0001.PO\<close> and \<^verbatim>\<open>Map0001.po\<close>
  both in the output directory, an update of \<^verbatim>\<open>Map0001.lmu\<close> merges with whichever of the
  two is enumerated first, and \<^verbatim>\<open>out/Map0001.po\<close> ends up with a different translation.
\<close>

theorem enumeration_order_changes_output:
  "source_files demo_update = [] \<and> outdir_files demo_update = [] \<and>
   same_listing demo_dirs_two demo_dirs_two_shuffled ''out'' \<and>
   same_listing demo_dirs_two demo_dirs_two_shuffled ''game'' \<and>
   files (snd (main standin demo_dirs_two demo_update demo_world_two)) ''out/Map0001.po''
     = Some (write_plain [bonjour, plain_entry ''Bye'']) \<and>
   files (snd (main standin demo_dirs_two_shuffled demo_update demo_world_two)) ''out/Map0001.po''
     = Some (write_plain [salut, plain_entry ''Bye'']) \<and>
   write_plain [bonjour, plain_entry ''Bye''] \<noteq> write_plain [salut, plain_entry ''Bye''] \<and>
   main standin demo_dirs_two demo_update demo_world_two \<noteq>
     main standin demo_dirs_two_shuffled demo_update demo_world_two"
proof -
  have "main standin demo_dirs_two demo_update demo_world_two \<noteq>
      main standin demo_dirs_two_shuffled demo_update demo_world_two"
  proof
    assume "main standin demo_dirs_two demo_update demo_world_two =
      main standin demo_dirs_two_shuffled demo_update demo_world_two"
    then have "files (snd (main standin demo_dirs_two demo_update demo_world_two)) ''out/Map0001.po''
        = files (snd (main standin demo_dirs_two_shuffled demo_update demo_world_two)) ''out/Map0001.po''"
      by simp
    with demo_two_runs show False by simp
  qed
  then show ?thesis
    using demo_update_fields(1,2) demo_two_same_listing(1,2) demo_two_runs by blast
qed

end
